theory Spec2Isabelle
  imports Main "HOL-Library.Word"
begin

section \<open>Data model of the part merge (MergeTask.cpp)\<close>

text \<open>
  The enumerations below are declared in headers outside the modelled sources; the
  constructors that MergeTask.cpp names are kept under their names, the remaining ones stand
  for the enumerators the code never distinguishes.
\<close>

datatype MergeAlgorithm = Undecided | Horizontal | Vertical

datatype MergingParams_Mode =
  Ordinary | Collapsing | Summing | Aggregating | Replacing | Graphite | VersionedCollapsing

datatype MergeTreeDataPartType = Wide | Compact | InMemory

datatype MergeTreeDataPartStorageType = Full | Packed

datatype VectorIndexState = BUILT | PENDING | BUILDING | ERROR_STATE

datatype ProjectionDescription_Type = Normal | Aggregate

text \<open>
  Modelled from the spec: \<open>MergeType\<close> and \<open>isTTLMergeType\<close> are declared outside the modelled
  sources; "a TTL merge is requested" when the merge was assigned for TTL deletion or TTL
  recompression.
\<close>

datatype MergeType = Regular | TTLDelete | TTLRecompress

definition isTTLMergeType :: "MergeType \<Rightarrow> bool" where
  "isTTLMergeType t = (t = TTLDelete \<or> t = TTLRecompress)"

text \<open>
  Exceptions are values. \<open>UndefinedBehaviour\<close> stands for the places where the source reads
  a vector out of range or takes \<open>front()\<close> of an empty container.
\<close>

datatype error =
    ABORTED string
  | DIRECTORY_ALREADY_EXISTS
  | LOGICAL_ERROR string
  | BAD_ARGUMENTS string
  | UndefinedBehaviour

text \<open>
  Modelled from the spec: \<open>RowSourcePart\<close> is declared outside the modelled sources; it is
  one byte split into a source number and a skip flag, read by \<open>getSourceNum\<close> and
  \<open>getSkipFlag\<close>.
\<close>

record RowSourcePart =
  getSourceNum :: nat
  getSkipFlag :: bool

text \<open>
  A source part, with the observations the merge task makes of it: \<open>marks_count\<close> is
  \<open>index_granularity.getMarksCount()\<close>, \<open>part_offset_column\<close> the values of the
  \<open>_part_offset\<close> column that a read of the full mark range yields, \<open>vector_index\<close> the
  answers of \<open>vector_index.getColumnIndex\<close> with the state of the index found (absent key:
  no value), \<open>projection_parts\<close> the projection parts by projection name,
  \<open>storage_on_disk\<close> whether the part storage is a \<open>DataPartStorageOnDiskBase\<close>,
  \<open>part_min_ttl\<close> the part's minimum row TTL (0: none).
\<close>

record DataPart =
  part_name :: string
  rows_count :: nat
  marks_count :: nat
  part_offset_column :: "nat list"
  isWidePart :: bool
  vector_index :: "(string \<times> VectorIndexState) list"
  hasLightweightDelete :: bool
  storage_on_disk :: bool
  projection_parts :: "(string \<times> string) list"
  all_ttl_calculated :: bool
  part_min_ttl :: nat

record MergeTreeSettings =
  enable_vertical_merge_algorithm :: nat
  allow_vertical_merges_from_compact_to_wide_parts :: bool
  vertical_merge_algorithm_min_columns_to_activate :: nat
  vertical_merge_algorithm_min_rows_to_activate :: nat
  enable_decouple_vector_index :: bool

record MergingParams =
  mode :: MergingParams_Mode
  sign_column :: string
  version_column :: string
  is_deleted_column :: string

type_synonym NameAndTypePair = "string \<times> string"

record FutureMergedMutatedPart =
  fp_name :: string
  fp_parts :: "DataPart list"
  fp_merge_type :: MergeType
  fp_part_type :: MergeTreeDataPartType
  fp_storage_type :: MergeTreeDataPartStorageType

record ProjectionDescription =
  projection_name :: string
  projection_type :: ProjectionDescription_Type

text \<open>
  The metadata snapshot, read only: the physical columns, the columns the sorting key
  expression requires, the columns each secondary index expression requires, whether any TTL
  is declared, the names of the vector indices, the projections.
\<close>

record StorageInMemoryMetadata =
  md_columns :: "NameAndTypePair list"
  md_sorting_key_columns :: "string list"
  md_secondary_indices :: "string list list"
  md_hasAnyTTL :: bool
  md_vector_indices :: "string list"
  md_projections :: "ProjectionDescription list"

record MergeListElement =
  total_rows_count :: nat
  rows_read :: nat
  is_cancelled :: bool
  columns_written :: nat

text \<open>
  The new part: \<open>np_columns_ttl\<close> lists the columns with TTL information and whether that
  TTL is \<open>finished()\<close>; \<open>np_directory_exists\<close> is what \<open>data_part_storage->exists()\<close>
  answers in \<open>prepare\<close>; \<open>np_full_path\<close> is \<open>getDataPartStorage().getFullPath()\<close>.
\<close>

record NewDataPart =
  np_name :: string
  np_full_path :: string
  np_directory_exists :: bool
  np_rows_count :: nat
  np_part_min_ttl :: nat
  np_columns_ttl :: "(string \<times> bool) list"
  np_expired_columns :: "string list"
  np_merged_source_parts :: "(string \<times> nat \<times> bool) list"
  np_projection_parts :: "string list"
  np_is_temp :: bool
  np_tmp_directory :: string

text \<open>
  Constants declared outside the modelled sources are parameters of the model.
\<close>

record Constants =
  MAX_PARTS :: nat
  VECTOR_INDEX_FILE_SUFFIX :: string
  DEFAULT_DELAYED_STREAMS_FOR_PARALLEL_WRITE :: nat

text \<open>
  \<open>global_ctx\<close>. The first group of fields is what the task was created with and what its
  environment answers (the two blockers; the blocks the merged pipeline delivers, by their row
  counts; what a merging transform that is given the rows sources buffer writes to it by the
  end of the horizontal stage; what the gatherer delivers for a column; the file names
  \<open>moveVectorIndexFiles\<close> reports as moved). The second group is the state the stages build.
\<close>

record GlobalRuntimeContext =
  constants :: Constants
  future_part :: FutureMergedMutatedPart
  metadata_snapshot :: StorageInMemoryMetadata
  data_settings :: MergeTreeSettings
  merge_list_element :: MergeListElement
  merges_blocker :: bool
  ttl_merges_blocker :: bool
  deduplicate :: bool
  need_prefix :: bool
  parent_part :: "string option"
  time_of_merge :: nat
  input_rows_filtered :: nat
  merged_pipeline_blocks :: "nat list"
  rows_sources_written :: "RowSourcePart list"
  gathered_column_blocks :: "string \<Rightarrow> nat list"
  moveVectorIndexFiles :: "bool \<Rightarrow> string \<Rightarrow> string \<Rightarrow> string \<Rightarrow> string list"
  new_data_part :: NewDataPart
  storage_columns :: "NameAndTypePair list"
  all_column_names :: "string list"
  gathering_columns :: "NameAndTypePair list"
  gathering_column_names :: "string list"
  merging_columns :: "NameAndTypePair list"
  merging_column_names :: "string list"
  chosen_merge_algorithm :: MergeAlgorithm
  can_be_decouple :: bool
  only_one_vpart_merged :: bool
  all_parts_have_vector_index :: "string \<Rightarrow> bool option"
  first_part_with_data :: nat
  inverted_row_ids_map_file_path :: string
  row_ids_map_files :: "string list"
  inverted_row_sources_map_file_path :: string
  rows_written :: nat
  merging_executor :: "nat list option"
  merged_transform_rows_sources :: bool
  gathering_column_names_size :: nat
  inverted_row_ids_map_buf :: "nat list"
  row_ids_map_bufs :: "nat list list"
  bitmap_updates :: "(string \<times> string \<times> nat list) list"
  vector_index_checksums :: "(string \<times> string list) list"
  promise :: "NewDataPart option"

text \<open>The runtime context of the horizontal stage (\<open>ctx\<close>).\<close>

record ExecuteAndFinalizeHorizontalPartRuntimeContext =
  suffix :: string
  merging_params :: MergingParams
  need_remove_expired_values :: bool
  force_ttl :: bool
  rows_sources_write_buf :: bool
  rows_sources_file :: string
  rows_sources_file_keep :: bool
  blocks_are_granules_size :: bool
  is_cancelled_need_remove :: bool
  need_sync :: bool

section \<open>Helpers\<close>

text \<open>\<open>toString\<close> of an unsigned integer: its decimal digits.\<close>

function toString :: "nat \<Rightarrow> string" where
  "toString n =
     (if n < 10 then [''0123456789'' ! n]
      else toString (n div 10) @ [''0123456789'' ! (n mod 10)])"
  by pat_completeness auto
termination
  by (relation "measure id") auto

declare toString.simps [simp del]

section \<open>extractMergingAndGatheringColumns\<close>

text \<open>
  \<open>key_columns\<close> is a \<open>std::set<String>\<close>: the columns required by the sorting key and by
  every secondary index, then the columns the merging mode forces. \<open>storage_columns.front()\<close>
  of an empty list is undefined in the source. The result is the four output lists
  (gathering columns, their names, merging columns, their names).
\<close>

definition key_columns_of ::
  "string list \<Rightarrow> string list list \<Rightarrow> MergingParams \<Rightarrow> string set" where
  "key_columns_of sort_key_columns_vec indexes mp =
     (let k0 = set sort_key_columns_vec \<union> \<Union> (set (map set indexes));
          k1 = (if mode mp = Collapsing then insert (sign_column mp) k0 else k0);
          k2 = (if mode mp = Replacing
                then insert (version_column mp) (insert (is_deleted_column mp) k1)
                else k1);
          k3 = (if mode mp = VersionedCollapsing then insert (sign_column mp) k2 else k2)
      in k3)"

fun split_columns ::
  "string set \<Rightarrow> NameAndTypePair list \<Rightarrow> NameAndTypePair list \<times> NameAndTypePair list" where
  "split_columns key_columns [] = ([], [])"
| "split_columns key_columns (column # rest) =
     (let (merging, gathering) = split_columns key_columns rest
      in if fst column \<in> key_columns
         then (column # merging, gathering)
         else (merging, column # gathering))"

definition extractMergingAndGatheringColumns ::
  "NameAndTypePair list \<Rightarrow> string list \<Rightarrow> string list list \<Rightarrow> MergingParams
     \<Rightarrow> error + (NameAndTypePair list \<times> string list \<times> NameAndTypePair list \<times> string list)" where
  "extractMergingAndGatheringColumns storage_cols sort_key_columns_vec indexes mp =
     (let key_columns = key_columns_of sort_key_columns_vec indexes mp
      in if key_columns = {} \<and> storage_cols = [] then Inl UndefinedBehaviour
         else
           let key_columns' =
                 (if key_columns = {} then insert (fst (hd storage_cols)) key_columns
                  else key_columns);
               (m, g) = split_columns key_columns' storage_cols
           in Inr (g, map fst g, m, map fst m))"

section \<open>chooseMergeAlgorithm\<close>

fun some_part_not_wide :: "DataPart list \<Rightarrow> bool" where
  "some_part_not_wide [] = False"
| "some_part_not_wide (part # rest) = (if \<not> isWidePart part then True else some_part_not_wide rest)"

definition chooseMergeAlgorithm ::
  "GlobalRuntimeContext \<Rightarrow> ExecuteAndFinalizeHorizontalPartRuntimeContext \<Rightarrow> MergeAlgorithm" where
  "chooseMergeAlgorithm g c =
     (let sum_rows_upper_bound = total_rows_count (merge_list_element g);
          st = data_settings g
      in
      if deduplicate g then Horizontal
      else if enable_vertical_merge_algorithm st = 0 then Horizontal
      else if need_remove_expired_values c then Horizontal
      else if fp_part_type (future_part g) \<noteq> Wide then Horizontal
      else if fp_storage_type (future_part g) \<noteq> Full then Horizontal
      else if \<not> allow_vertical_merges_from_compact_to_wide_parts st
              \<and> some_part_not_wide (fp_parts (future_part g)) then Horizontal
      else
        let is_supported_storage =
              (mode (merging_params c) = Ordinary \<or> mode (merging_params c) = Collapsing
               \<or> mode (merging_params c) = Replacing
               \<or> mode (merging_params c) = VersionedCollapsing);
            enough_ordinary_cols =
              (length (gathering_columns g) \<ge> vertical_merge_algorithm_min_columns_to_activate st);
            enough_total_rows =
              (sum_rows_upper_bound \<ge> vertical_merge_algorithm_min_rows_to_activate st);
            no_parts_overflow = (length (fp_parts (future_part g)) \<le> MAX_PARTS (constants g))
        in if is_supported_storage \<and> enough_total_rows \<and> enough_ordinary_cols \<and> no_parts_overflow
           then Vertical else Horizontal)"

section \<open>ExecuteAndFinalizeHorizontalPart::prepare\<close>

text \<open>
  Modelled from the spec: \<open>ttl_infos.update\<close> is outside the modelled sources; the new part's
  minimum row TTL is the least minimum row TTL that a source reports (0: none reported).
\<close>

definition ttl_infos_update :: "nat \<Rightarrow> DataPart \<Rightarrow> nat" where
  "ttl_infos_update acc part =
     (if part_min_ttl part \<noteq> 0 \<and> (acc = 0 \<or> part_min_ttl part < acc) then part_min_ttl part else acc)"

text \<open>
  The loop over the source parts that merges the TTL information and forces a TTL
  recalculation when a part has TTL values that were not calculated. The state is
  (the new part's minimum TTL, \<open>need_remove_expired_values\<close>, \<open>force_ttl\<close>).
\<close>

fun ttl_parts_loop :: "bool \<Rightarrow> DataPart list \<Rightarrow> nat \<times> bool \<times> bool \<Rightarrow> nat \<times> bool \<times> bool" where
  "ttl_parts_loop has_any_ttl [] st = st"
| "ttl_parts_loop has_any_ttl (part # rest) (min_ttl, need_remove, force) =
     (let min_ttl' = ttl_infos_update min_ttl part
      in if has_any_ttl \<and> \<not> all_ttl_calculated part
         then ttl_parts_loop has_any_ttl rest (min_ttl', True, True)
         else ttl_parts_loop has_any_ttl rest (min_ttl', need_remove, force))"

text \<open>
  The decision whether expired values are to be removed: the parts loop, then the minimum
  TTL against the time of the merge, then the TTL merges blocker, which switches the removal
  off. The result is (minimum TTL, \<open>need_remove_expired_values\<close>, \<open>force_ttl\<close>).
\<close>

definition prepare_ttl :: "GlobalRuntimeContext \<Rightarrow> nat \<times> bool \<times> bool" where
  "prepare_ttl g =
     (let (local_part_min_ttl, need_remove0, force) =
            ttl_parts_loop (md_hasAnyTTL (metadata_snapshot g)) (fp_parts (future_part g))
              (np_part_min_ttl (new_data_part g), False, False);
          need_remove1 =
            (if local_part_min_ttl \<noteq> 0 \<and> local_part_min_ttl \<le> time_of_merge g then True
             else need_remove0);
          need_remove2 = (if need_remove1 \<and> ttl_merges_blocker g then False else need_remove1)
      in (local_part_min_ttl, need_remove2, force))"

text \<open>
  The check whether the merged part can be decoupled. The inner loop runs over the source
  parts for one vector index; its state is (\<open>num_parts_with_vector_index\<close>,
  \<open>empty_parts_count\<close>, the local \<open>first_part_with_data\<close>, which is \<open>None\<close> for -1).
\<close>

fun decouple_parts_loop ::
  "string \<Rightarrow> DataPart list \<Rightarrow> nat \<Rightarrow> nat \<times> nat \<times> nat option \<Rightarrow> nat \<times> nat \<times> nat option" where
  "decouple_parts_loop vec_index [] i st = st"
| "decouple_parts_loop vec_index (part # rest) i (num_with, empty_count, first) =
     (case map_of (vector_index part) vec_index of
        None \<Rightarrow> decouple_parts_loop vec_index rest (Suc i) (num_with, empty_count, first)
      | Some state \<Rightarrow>
          decouple_parts_loop vec_index rest (Suc i)
            (if state = BUILT then Suc num_with else num_with,
             if rows_count part = 0 then Suc empty_count else empty_count,
             if first = None \<and> rows_count part \<noteq> 0 then Some i else first))"

text \<open>
  The body of the outer loop, for one vector index; its state is (local
  \<open>first_part_with_data\<close>, \<open>max_part_with_index\<close>, \<open>all_parts_have_vector_index\<close>,
  \<open>can_be_decouple\<close>). The variable \<open>not_empty_part_size\<close> of the source is assigned and
  never read.
\<close>

definition decouple_index_step ::
  "DataPart list \<Rightarrow> string \<Rightarrow> nat option \<times> nat \<times> (string \<Rightarrow> bool option) \<times> bool
     \<Rightarrow> nat option \<times> nat \<times> (string \<Rightarrow> bool option) \<times> bool" where
  "decouple_index_step parts vec_index st =
     (case st of (first, max_with, have, can) \<Rightarrow>
        (case decouple_parts_loop vec_index parts 0 (0, 0, first) of
           (num_with, empty_count, first') \<Rightarrow>
             let num_parts = length parts;
                 max_with' = (if max_with < num_with then num_with else max_with)
             in if num_parts > 0 \<and> num_with + empty_count = num_parts
                then (first', max_with', have(vec_index \<mapsto> True), True)
                else (first', max_with', have, can)))"

fun decouple_indices_loop ::
  "DataPart list \<Rightarrow> string list \<Rightarrow> nat option \<times> nat \<times> (string \<Rightarrow> bool option) \<times> bool
     \<Rightarrow> nat option \<times> nat \<times> (string \<Rightarrow> bool option) \<times> bool" where
  "decouple_indices_loop parts [] st = st"
| "decouple_indices_loop parts (vec_index # rest) st =
     decouple_indices_loop parts rest (decouple_index_step parts vec_index st)"

definition prepare_decouple :: "GlobalRuntimeContext \<Rightarrow> error + GlobalRuntimeContext" where
  "prepare_decouple g =
     (if \<not> enable_decouple_vector_index (data_settings g) then Inr g
      else
        let parts = fp_parts (future_part g);
            (first, max_part_with_index, have, can) =
              decouple_indices_loop parts (md_vector_indices (metadata_snapshot g))
                (None, 0, all_parts_have_vector_index g, can_be_decouple g);
            g1 = g \<lparr> all_parts_have_vector_index := have, can_be_decouple := can,
                     first_part_with_data :=
                       (case first of None \<Rightarrow> first_part_with_data g | Some i \<Rightarrow> i) \<rparr>
        in if can \<and> max_part_with_index = 1
           then (case first of
                   None \<Rightarrow> Inl UndefinedBehaviour
                 | Some i \<Rightarrow>
                     if \<not> hasLightweightDelete (parts ! i)
                     then Inr (g1 \<lparr> only_one_vpart_merged := True, can_be_decouple := False \<rparr>)
                     else Inr g1)
           else Inr g1)"

text \<open>The names of the row ids map files, one for every source part, in order.\<close>

fun row_ids_map_file_names :: "string \<Rightarrow> string \<Rightarrow> DataPart list \<Rightarrow> nat \<Rightarrow> string list" where
  "row_ids_map_file_names full_path sfx [] i = []"
| "row_ids_map_file_names full_path sfx (part # rest) i =
     (full_path @ ''merged-'' @ toString i @ ''-'' @ part_name part @ ''-row_ids_map'' @ sfx)
       # row_ids_map_file_names full_path sfx rest (Suc i)"

fun merge_source_parts_of :: "DataPart list \<Rightarrow> nat \<Rightarrow> (string \<times> nat \<times> bool) list" where
  "merge_source_parts_of [] i = []"
| "merge_source_parts_of (old_part # rest) i =
     (part_name old_part, i, rows_count old_part \<noteq> 0) # merge_source_parts_of rest (Suc i)"

definition prepare_row_ids_maps ::
  "GlobalRuntimeContext \<times> ExecuteAndFinalizeHorizontalPartRuntimeContext
     \<Rightarrow> GlobalRuntimeContext \<times> ExecuteAndFinalizeHorizontalPartRuntimeContext" where
  "prepare_row_ids_maps gc =
     (let (g, c) = gc;
          g1 = g \<lparr> new_data_part := (new_data_part g)
                     \<lparr> np_merged_source_parts := merge_source_parts_of (fp_parts (future_part g)) 0 \<rparr> \<rparr>
      in if can_be_decouple g1
         then
           let c1 = c \<lparr> rows_sources_write_buf := True, rows_sources_file_keep := True \<rparr>;
               full_path = np_full_path (new_data_part g1);
               sfx = VECTOR_INDEX_FILE_SUFFIX (constants g1)
           in (g1 \<lparr> inverted_row_ids_map_file_path := full_path @ ''merged-inverted_row_ids_map'' @ sfx,
                    row_ids_map_files :=
                      row_ids_map_files g1 @ row_ids_map_file_names full_path sfx (fp_parts (future_part g1)) 0,
                    inverted_row_sources_map_file_path := rows_sources_file c1 \<rparr>,
               c1)
         else (g1, c))"

text \<open>
  The columns whose TTL is finished are skipped when expired values are not removed: each
  is recorded as expired and erased from both name lists, and the column lists are
  filtered by the names that remain.
\<close>

fun expired_columns_loop ::
  "(string \<times> bool) list \<Rightarrow> string list \<times> string list \<times> string list \<times> nat
     \<Rightarrow> string list \<times> string list \<times> string list \<times> nat" where
  "expired_columns_loop [] st = st"
| "expired_columns_loop ((column_name, finished) # rest) (expired, gathering_names, merging_names, n) =
     (if finished
      then expired_columns_loop rest
             (expired @ [column_name], removeAll column_name gathering_names,
              removeAll column_name merging_names, Suc n)
      else expired_columns_loop rest (expired, gathering_names, merging_names, n))"

definition prepare_expired_columns ::
  "GlobalRuntimeContext \<Rightarrow> ExecuteAndFinalizeHorizontalPartRuntimeContext \<Rightarrow> GlobalRuntimeContext" where
  "prepare_expired_columns g c =
     (if \<not> need_remove_expired_values c
      then
        let (expired, gathering_names, merging_names, expired_columns) =
              expired_columns_loop (np_columns_ttl (new_data_part g))
                (np_expired_columns (new_data_part g), gathering_column_names g, merging_column_names g, 0);
            g1 = g \<lparr> new_data_part := (new_data_part g) \<lparr> np_expired_columns := expired \<rparr>,
                     gathering_column_names := gathering_names,
                     merging_column_names := merging_names \<rparr>
        in if expired_columns \<noteq> 0
           then g1 \<lparr> gathering_columns := filter (\<lambda>col. fst col \<in> set gathering_names) (gathering_columns g1),
                     merging_columns := filter (\<lambda>col. fst col \<in> set merging_names) (merging_columns g1) \<rparr>
           else g1
      else g)"

definition local_tmp_part_basename ::
  "GlobalRuntimeContext \<Rightarrow> ExecuteAndFinalizeHorizontalPartRuntimeContext \<Rightarrow> string" where
  "local_tmp_part_basename g c =
     (let local_tmp_prefix =
            (if need_prefix g then (if parent_part g \<noteq> None then [] else ''tmp_merge_'') else []);
          local_tmp_suffix = (if parent_part g \<noteq> None then suffix c else [])
      in local_tmp_prefix @ fp_name (future_part g) @ local_tmp_suffix)"

text \<open>
  \<open>prepare\<close>, in the order of the source, in steps. What it does to the disk, the codec, the
  serialization infos and the log is left out, except where the log reads
  \<open>parts.front()\<close>: with no source part that read is undefined.
\<close>

text \<open>The cancellation checks, the log line and the check of the directory.\<close>

definition prepare_checks :: "GlobalRuntimeContext \<Rightarrow> error option" where
  "prepare_checks g =
     (if merges_blocker g \<or> is_cancelled (merge_list_element g)
      then Some (ABORTED ''Cancelled merging parts'')
      else if isTTLMergeType (fp_merge_type (future_part g)) \<and> ttl_merges_blocker g
      then Some (ABORTED ''Cancelled merging parts with TTL'')
      else if fp_parts (future_part g) = [] then Some UndefinedBehaviour
      else if np_directory_exists (new_data_part g) then Some DIRECTORY_ALREADY_EXISTS
      else None)"

text \<open>The new part is built; the columns are taken from the metadata and split.\<close>

definition prepare_columns ::
  "GlobalRuntimeContext \<Rightarrow> ExecuteAndFinalizeHorizontalPartRuntimeContext
     \<Rightarrow> error + GlobalRuntimeContext" where
  "prepare_columns g c =
     (let g1 = g \<lparr> new_data_part := (new_data_part g)
                     \<lparr> np_name := fp_name (future_part g),
                       np_tmp_directory := local_tmp_part_basename g c,
                       np_is_temp := (parent_part g = None) \<rparr>,
                   all_column_names := map fst (md_columns (metadata_snapshot g)),
                   storage_columns := md_columns (metadata_snapshot g) \<rparr>
      in case extractMergingAndGatheringColumns (storage_columns g1)
                (md_sorting_key_columns (metadata_snapshot g1))
                (md_secondary_indices (metadata_snapshot g1)) (merging_params c) of
           Inl e \<Rightarrow> Inl e
         | Inr (gathering, gathering_names, merging, merging_names) \<Rightarrow>
             Inr (g1 \<lparr> gathering_columns := gathering_columns g1 @ gathering,
                       gathering_column_names := gathering_column_names g1 @ gathering_names,
                       merging_columns := merging_columns g1 @ merging,
                       merging_column_names := merging_column_names g1 @ merging_names \<rparr>))"

text \<open>The TTL decision is stored, the merge algorithm is chosen and the columns are set for it.\<close>

definition prepare_algorithm ::
  "GlobalRuntimeContext \<Rightarrow> ExecuteAndFinalizeHorizontalPartRuntimeContext
     \<Rightarrow> error + (GlobalRuntimeContext \<times> ExecuteAndFinalizeHorizontalPartRuntimeContext)" where
  "prepare_algorithm g c =
     (case prepare_ttl g of (local_part_min_ttl, need_remove, force) \<Rightarrow>
        let g1 = g \<lparr> new_data_part := (new_data_part g) \<lparr> np_part_min_ttl := local_part_min_ttl \<rparr> \<rparr>;
            c1 = c \<lparr> need_remove_expired_values := need_remove, force_ttl := force \<rparr>;
            g2 = g1 \<lparr> chosen_merge_algorithm := chooseMergeAlgorithm g1 c1 \<rparr>
        in case chosen_merge_algorithm g2 of
             Horizontal \<Rightarrow>
               Inr (g2 \<lparr> merging_columns := storage_columns g2,
                         merging_column_names := all_column_names g2,
                         gathering_columns := [],
                         gathering_column_names := [] \<rparr>, c1)
           | Vertical \<Rightarrow> Inr (g2, c1 \<lparr> rows_sources_write_buf := True \<rparr>)
           | Undecided \<Rightarrow> Inl (LOGICAL_ERROR ''Merge algorithm must be chosen''))"

text \<open>
  \<open>createMergedStream\<close>: the merging transform is given the rows sources buffer in the
  Ordinary, Collapsing, Replacing and VersionedCollapsing modes only; the Summing, Aggregating
  and Graphite transforms are constructed without it. \<open>merged_transform_rows_sources\<close> records
  whether the transform of this merge writes to an existing buffer.
\<close>

definition createMergedStream ::
  "GlobalRuntimeContext \<Rightarrow> ExecuteAndFinalizeHorizontalPartRuntimeContext
     \<Rightarrow> GlobalRuntimeContext \<times> ExecuteAndFinalizeHorizontalPartRuntimeContext" where
  "createMergedStream g c =
     (let c1 = c \<lparr> blocks_are_granules_size := (chosen_merge_algorithm g = Vertical) \<rparr>;
          m = mode (merging_params c1)
      in (g \<lparr> merged_transform_rows_sources :=
                (rows_sources_write_buf c1
                 \<and> (m = Ordinary \<or> m = Collapsing \<or> m = Replacing \<or> m = VersionedCollapsing)),
              merging_executor := Some (merged_pipeline_blocks g) \<rparr>, c1))"

definition prepare ::
  "GlobalRuntimeContext \<times> ExecuteAndFinalizeHorizontalPartRuntimeContext
     \<Rightarrow> error + (bool \<times> GlobalRuntimeContext \<times> ExecuteAndFinalizeHorizontalPartRuntimeContext)" where
  "prepare gc =
     (case gc of (g, c) \<Rightarrow>
      case prepare_checks g of
        Some e \<Rightarrow> Inl e
      | None \<Rightarrow>
         (case prepare_columns g c of
            Inl e \<Rightarrow> Inl e
          | Inr g2 \<Rightarrow>
             (case prepare_algorithm g2 c of
                Inl e \<Rightarrow> Inl e
              | Inr (g5, c2) \<Rightarrow>
                 (case prepare_decouple g5 of
                    Inl e \<Rightarrow> Inl e
                  | Inr g6 \<Rightarrow>
                     (case prepare_row_ids_maps (g6, c2) of (g7, c3) \<Rightarrow>
                      case createMergedStream g7 (c3 \<lparr> blocks_are_granules_size := (chosen_merge_algorithm g7 = Vertical) \<rparr>) of
                        (g8, c4) \<Rightarrow>
                          Inr (False,
                               (prepare_expired_columns g8 c4) \<lparr> rows_written := 0 \<rparr>,
                               c4 \<lparr> is_cancelled_need_remove := need_remove_expired_values c4 \<rparr>))))))"

text \<open>
  The content of the rows sources file once the merged pipeline is exhausted: what the
  merging transform wrote, if it was given the buffer.
\<close>

definition rows_sources_file_content :: "GlobalRuntimeContext \<Rightarrow> RowSourcePart list" where
  "rows_sources_file_content g =
     (if merged_transform_rows_sources g then rows_sources_written g else [])"

section \<open>ExecuteAndFinalizeHorizontalPart::executeImpl\<close>

text \<open>The \<open>is_cancelled\<close> closure that \<open>prepare\<close> stores in \<open>ctx\<close>.\<close>

definition ctx_is_cancelled ::
  "GlobalRuntimeContext \<Rightarrow> ExecuteAndFinalizeHorizontalPartRuntimeContext \<Rightarrow> bool" where
  "ctx_is_cancelled g c =
     (merges_blocker g \<or> (is_cancelled_need_remove c \<and> ttl_merges_blocker g)
      \<or> is_cancelled (merge_list_element g))"

text \<open>
  \<open>pull\<close> on an executor: the next block, if the pipeline has one. An executor that was
  reset delivers nothing.
\<close>

definition pull :: "nat list option \<Rightarrow> (nat \<times> nat list option) option" where
  "pull executor =
     (case executor of
        None \<Rightarrow> None
      | Some [] \<Rightarrow> None
      | Some (block_rows # rest) \<Rightarrow> Some (block_rows, Some rest))"

definition executeImpl ::
  "GlobalRuntimeContext \<times> ExecuteAndFinalizeHorizontalPartRuntimeContext
     \<Rightarrow> error + (bool \<times> GlobalRuntimeContext \<times> ExecuteAndFinalizeHorizontalPartRuntimeContext)" where
  "executeImpl gc =
     (let (g, c) = gc in
      case (if ctx_is_cancelled g c then None else pull (merging_executor g)) of
        Some (block_rows, executor') \<Rightarrow>
          Inr (True, g \<lparr> merging_executor := executor', rows_written := rows_written g + block_rows \<rparr>, c)
      | None \<Rightarrow>
          if merges_blocker g \<or> is_cancelled (merge_list_element g)
          then Inl (ABORTED ''Cancelled merging parts'')
          else if need_remove_expired_values c \<and> ttl_merges_blocker g
          then Inl (ABORTED ''Cancelled merging parts with expired TTL'')
          else Inr (False, g \<lparr> merging_executor := None \<rparr>, c))"

section \<open>ExecuteAndFinalizeHorizontalPart::generateRowIdsMap\<close>

text \<open>
  The row ids and counters of the source are unsigned 64-bit integers that count rows of
  parts and bytes of a file that was written; they are natural numbers here. The sentinel is
  the source's \<open>UInt64 new_row_id = -1\<close>.
\<close>

definition UINT64_MAX :: nat where
  "UINT64_MAX = unat (- 1 :: 64 word)"

text \<open>
  The first pass: the \<open>_part_offset\<close> values of every source part, read over its full mark
  range; a part with no marks is skipped and keeps an empty vector.
\<close>

definition read_part_offsets :: "DataPart \<Rightarrow> nat list" where
  "read_part_offsets part = (if marks_count part \<noteq> 0 then part_offset_column part else [])"

text \<open>
  The replay of the rows sources file. The state is (\<open>new_part_row_id\<close>, \<open>source_row_ids\<close>,
  \<open>parts_new_row_ids\<close>, what was written to \<open>inverted_row_ids_map_buf\<close>). The source has
  this loop twice: in the Collapsing, Replacing and VersionedCollapsing modes a record with
  the skip flag only advances the cursor of its source (\<open>check_skip\<close>), in the other modes
  the skip flag is not read. An index beyond a vector is undefined in the source.
\<close>

type_synonym replay_state = "nat \<times> nat list \<times> (nat \<Rightarrow> nat option) list \<times> nat list"

fun replay_rows_sources ::
  "bool \<Rightarrow> nat list list \<Rightarrow> RowSourcePart list \<Rightarrow> replay_state \<Rightarrow> error + replay_state" where
  "replay_rows_sources check_skip part_offsets [] st = Inr st"
| "replay_rows_sources check_skip part_offsets (row_source # rest)
       (new_part_row_id, source_row_ids, parts_new_row_ids, inverted) =
     (let source_num = getSourceNum row_source in
      if source_num \<ge> length source_row_ids \<or> source_num \<ge> length part_offsets
         \<or> source_num \<ge> length parts_new_row_ids
      then Inl UndefinedBehaviour
      else if check_skip \<and> getSkipFlag row_source
      then replay_rows_sources check_skip part_offsets rest
             (new_part_row_id,
              source_row_ids[source_num := Suc (source_row_ids ! source_num)],
              parts_new_row_ids, inverted)
      else if source_row_ids ! source_num \<ge> length (part_offsets ! source_num)
      then Inl UndefinedBehaviour
      else
        let old_part_offset = part_offsets ! source_num ! (source_row_ids ! source_num) in
        replay_rows_sources check_skip part_offsets rest
          (Suc new_part_row_id,
           source_row_ids[source_num := Suc (source_row_ids ! source_num)],
           parts_new_row_ids[source_num := (parts_new_row_ids ! source_num)(old_part_offset \<mapsto> new_part_row_id)],
           inverted @ [old_part_offset]))"

text \<open>
  Writing the row ids map of one source part in the Collapsing, Replacing and
  VersionedCollapsing modes: a row with a new row id is written, a row without one is
  collected in \<open>deleteRowIds\<close> and nothing is written for it. The result is (what was
  written, the collected old row ids). The number \<open>i\<close> of collected row ids is an \<open>int\<close> in
  the source, here the length of the collected list: \<open>i++\<close> at \<open>INT_MAX\<close> is undefined.
\<close>

definition INT_MAX :: nat where
  "INT_MAX = 2147483647"

function write_row_ids_collapsing ::
  "(nat \<Rightarrow> nat option) \<Rightarrow> nat \<Rightarrow> nat \<Rightarrow> nat list \<Rightarrow> nat list
     \<Rightarrow> error + (nat list \<times> nat list)" where
  "write_row_ids_collapsing new_row_ids partRowNum old_row_id buf deleted =
     (if old_row_id < partRowNum
      then (case new_row_ids old_row_id of
              Some new_row_id \<Rightarrow>
                write_row_ids_collapsing new_row_ids partRowNum (Suc old_row_id) (buf @ [new_row_id]) deleted
            | None \<Rightarrow>
                if length deleted \<ge> INT_MAX then Inl UndefinedBehaviour
                else write_row_ids_collapsing new_row_ids partRowNum (Suc old_row_id) buf
                       (deleted @ [old_row_id]))
      else Inr (buf, deleted))"
  by pat_completeness auto
termination
  by (relation "measure (\<lambda>(new_row_ids, partRowNum, old_row_id, buf, deleted). partRowNum - old_row_id)") auto

declare write_row_ids_collapsing.simps [simp del]

text \<open>
  Writing the row ids map of one source part in the other modes: every old row gets an
  entry, the sentinel when it has no new row id.
\<close>

function write_row_ids_ordinary ::
  "(nat \<Rightarrow> nat option) \<Rightarrow> nat \<Rightarrow> nat \<Rightarrow> nat list \<Rightarrow> nat list" where
  "write_row_ids_ordinary new_row_ids part_rows old_row_id buf =
     (if old_row_id < part_rows
      then write_row_ids_ordinary new_row_ids part_rows (Suc old_row_id)
             (buf @ [case new_row_ids old_row_id of Some new_row_id \<Rightarrow> new_row_id | None \<Rightarrow> UINT64_MAX])
      else buf)"
  by pat_completeness auto
termination
  by (relation "measure (\<lambda>(new_row_ids, part_rows, old_row_id, buf). part_rows - old_row_id)") auto

declare write_row_ids_ordinary.simps [simp del]

text \<open>
  The bitmap updates for one source part with collected row ids: one \<open>updateBitMap\<close> per
  vector index, each with the whole \<open>deleteRowIds\<close> vector, which has \<open>partRowNum\<close>
  elements, the collected ids first and zeros after them. A part storage that is not on disk
  raises \<open>BAD_ARGUMENTS\<close>.
\<close>

fun update_bitmaps ::
  "DataPart \<Rightarrow> nat list \<Rightarrow> string list \<Rightarrow> (string \<times> string \<times> nat list) list
     \<Rightarrow> error + (string \<times> string \<times> nat list) list" where
  "update_bitmaps part deleteRowIds [] updates = Inr updates"
| "update_bitmaps part deleteRowIds (vec_index # rest) updates =
     (if \<not> storage_on_disk part then Inl (BAD_ARGUMENTS ''Unsupported part storage.'')
      else update_bitmaps part deleteRowIds rest (updates @ [(part_name part, vec_index, deleteRowIds)]))"

text \<open>
  The body of the loop over the source parts that writes the row ids maps; the state is
  (what was written to each of \<open>row_ids_map_bufs\<close>, the bitmap updates made).
\<close>

definition write_part_row_ids_map ::
  "bool \<Rightarrow> string list \<Rightarrow> (nat \<Rightarrow> nat option) list \<Rightarrow> DataPart \<Rightarrow> nat
     \<Rightarrow> nat list list \<times> (string \<times> string \<times> nat list) list
     \<Rightarrow> error + (nat list list \<times> (string \<times> string \<times> nat list) list)" where
  "write_part_row_ids_map collapsing vec_indices parts_new_row_ids part source_num st =
     (case st of (bufs, updates) \<Rightarrow>
        if source_num \<ge> length parts_new_row_ids then Inl UndefinedBehaviour
        else if collapsing
        then (case write_row_ids_collapsing (parts_new_row_ids ! source_num) (rows_count part) 0 [] [] of
                Inl e \<Rightarrow> Inl e
              | Inr (written, deleted) \<Rightarrow>
                  if written \<noteq> [] \<and> source_num \<ge> length bufs then Inl UndefinedBehaviour
                  else
                    let bufs' = (if written = [] then bufs
                                 else bufs[source_num := bufs ! source_num @ written]);
                        deleteRowIds = deleted @ replicate (rows_count part - length deleted) 0
                    in if length deleted > 0
                       then (case update_bitmaps part deleteRowIds vec_indices updates of
                               Inl e \<Rightarrow> Inl e
                             | Inr updates' \<Rightarrow> Inr (bufs', updates'))
                       else Inr (bufs', updates))
        else
          let written = write_row_ids_ordinary (parts_new_row_ids ! source_num) (rows_count part) 0 []
          in if written \<noteq> [] \<and> source_num \<ge> length bufs then Inl UndefinedBehaviour
             else Inr ((if written = [] then bufs else bufs[source_num := bufs ! source_num @ written]),
                       updates))"

fun write_row_ids_maps ::
  "bool \<Rightarrow> string list \<Rightarrow> (nat \<Rightarrow> nat option) list \<Rightarrow> DataPart list \<Rightarrow> nat
     \<Rightarrow> nat list list \<times> (string \<times> string \<times> nat list) list
     \<Rightarrow> error + (nat list list \<times> (string \<times> string \<times> nat list) list)" where
  "write_row_ids_maps collapsing vec_indices parts_new_row_ids [] source_num st = Inr st"
| "write_row_ids_maps collapsing vec_indices parts_new_row_ids (part # rest) source_num st =
     (case write_part_row_ids_map collapsing vec_indices parts_new_row_ids part source_num st of
        Inl e \<Rightarrow> Inl e
      | Inr st' \<Rightarrow> write_row_ids_maps collapsing vec_indices parts_new_row_ids rest (Suc source_num) st')"

definition is_collapsing_mode :: "MergingParams_Mode \<Rightarrow> bool" where
  "is_collapsing_mode m = (m = Collapsing \<or> m = Replacing \<or> m = VersionedCollapsing)"

text \<open>
  \<open>generateRowIdsMap\<close>. With no inverted row ids map file registered nothing is done. The
  files are opened for every name in \<open>row_ids_map_files\<close>; \<open>row_ids_map_bufs\<close> holds what
  was written to each of them, \<open>inverted_row_ids_map_buf\<close> what was written to the inverted
  map.
\<close>

definition generateRowIdsMap ::
  "GlobalRuntimeContext \<times> ExecuteAndFinalizeHorizontalPartRuntimeContext
     \<Rightarrow> error + (bool \<times> GlobalRuntimeContext \<times> ExecuteAndFinalizeHorizontalPartRuntimeContext)" where
  "generateRowIdsMap gc =
     (let (g, c) = gc in
      if inverted_row_ids_map_file_path g = [] then Inr (False, g, c)
      else if \<not> rows_sources_write_buf c then Inl UndefinedBehaviour
      else
        let parts = fp_parts (future_part g);
            old_parts_num = length parts;
            part_offsets = map read_part_offsets parts;
            collapsing = is_collapsing_mode (mode (merging_params c))
        in case replay_rows_sources collapsing part_offsets (rows_sources_file_content g)
                  (0, replicate old_parts_num 0, replicate old_parts_num Map.empty, []) of
             Inl e \<Rightarrow> Inl e
           | Inr (new_part_row_id, source_row_ids, parts_new_row_ids, inverted) \<Rightarrow>
               (case write_row_ids_maps collapsing (md_vector_indices (metadata_snapshot g))
                       parts_new_row_ids parts 0
                       (replicate (length (row_ids_map_files g)) [], bitmap_updates g) of
                  Inl e \<Rightarrow> Inl e
                | Inr (bufs, updates) \<Rightarrow>
                    if length bufs < old_parts_num then Inl UndefinedBehaviour
                    else
                      Inr (False,
                           g \<lparr> inverted_row_ids_map_buf := inverted,
                               row_ids_map_bufs := bufs,
                               bitmap_updates := updates \<rparr>,
                           (if chosen_merge_algorithm g = Horizontal
                            then c \<lparr> rows_sources_write_buf := False \<rparr> else c))))"

section \<open>VerticalMergeStage\<close>

datatype VerticalMergeRuntimeContext_State = NEED_PREPARE | NEED_EXECUTE | NEED_FINISH

text \<open>
  The runtime context of the vertical stage. \<open>supportParallelWrite\<close> and
  \<open>max_insert_delayed_streams_for_parallel_write\<close> (a value when the setting was changed)
  are what the part storage and the settings answer; \<open>finished_streams\<close> lists the column
  streams on which \<open>finish\<close> was called, in order.
\<close>

record VerticalMergeRuntimeContext =
  supportParallelWrite :: bool
  max_insert_delayed_streams_for_parallel_write :: "nat option"
  rows_sources_read_buf :: bool
  column_num_for_vertical_merge :: nat
  it_name_and_type :: nat
  vertical_merge_one_column_state :: VerticalMergeRuntimeContext_State
  executor :: "nat list option"
  column_to :: "string option"
  column_elems_written :: nat
  delayed_streams :: "string list"
  finished_streams :: "string list"
  max_delayed_streams :: nat

definition prepareVerticalMergeForAllColumns ::
  "GlobalRuntimeContext \<times> VerticalMergeRuntimeContext
     \<Rightarrow> error + (bool \<times> GlobalRuntimeContext \<times> VerticalMergeRuntimeContext)" where
  "prepareVerticalMergeForAllColumns gv =
     (let (g, v) = gv in
      if chosen_merge_algorithm g \<noteq> Vertical then Inr (False, g, v)
      else
        let sum_input_rows_exact = rows_read (merge_list_element g);
            input_rows_filtered' = input_rows_filtered g;
            g1 = g \<lparr> merge_list_element := (merge_list_element g)
                       \<lparr> columns_written := length (merging_column_names g) \<rparr> \<rparr>;
            rows_sources_count = length (rows_sources_file_content g)
        in if (rows_sources_count > 0 \<or> length (fp_parts (future_part g)) > 1)
              \<and> sum_input_rows_exact \<noteq> rows_sources_count + input_rows_filtered'
           then Inl (LOGICAL_ERROR ''Number of rows in source parts ({}) excluding filtered rows ({}) differs from number of bytes written to rows_sources file ({}). It is a bug.'')
           else
             Inr (False,
                  g1 \<lparr> gathering_column_names_size := length (gathering_column_names g1) \<rparr>,
                  v \<lparr> rows_sources_read_buf := True,
                      column_num_for_vertical_merge := 0,
                      it_name_and_type := 0,
                      max_delayed_streams :=
                        (if supportParallelWrite v
                         then (case max_insert_delayed_streams_for_parallel_write v of
                                 Some n \<Rightarrow> n
                               | None \<Rightarrow> DEFAULT_DELAYED_STREAMS_FOR_PARALLEL_WRITE (constants g1))
                         else 0) \<rparr>))"

text \<open>
  \<open>prepareVerticalMergeForOneColumn\<close> reads the column under the iterator, which is
  undefined at the end of the list, and opens the gatherer for it.
\<close>

definition prepareVerticalMergeForOneColumn ::
  "GlobalRuntimeContext \<times> VerticalMergeRuntimeContext
     \<Rightarrow> error + (GlobalRuntimeContext \<times> VerticalMergeRuntimeContext)" where
  "prepareVerticalMergeForOneColumn gv =
     (let (g, v) = gv in
      if it_name_and_type v \<ge> length (gathering_columns g) then Inl UndefinedBehaviour
      else
        let column_name = fst (gathering_columns g ! it_name_and_type v)
        in Inr (g, v \<lparr> executor := Some (gathered_column_blocks g column_name),
                       column_to := Some column_name,
                       column_elems_written := 0 \<rparr>))"

definition executeVerticalMergeForOneColumn ::
  "GlobalRuntimeContext \<times> VerticalMergeRuntimeContext
     \<Rightarrow> bool \<times> GlobalRuntimeContext \<times> VerticalMergeRuntimeContext" where
  "executeVerticalMergeForOneColumn gv =
     (let (g, v) = gv in
      case (if \<not> merges_blocker g \<and> \<not> is_cancelled (merge_list_element g)
            then pull (executor v) else None) of
        Some (block_rows, executor') \<Rightarrow>
          (True, g, v \<lparr> executor := executor',
                        column_elems_written := column_elems_written v + block_rows \<rparr>)
      | None \<Rightarrow> (False, g, v))"

text \<open>
  The loop that finishes the oldest delayed streams while there are more than
  \<open>max_delayed_streams\<close> of them; the state is (delayed, finished).
\<close>

function finish_delayed_streams :: "nat \<Rightarrow> string list \<times> string list \<Rightarrow> string list \<times> string list" where
  "finish_delayed_streams max_delayed st =
     (case st of (delayed, finished) \<Rightarrow>
        if length delayed > max_delayed
        then finish_delayed_streams max_delayed (tl delayed, finished @ [hd delayed])
        else (delayed, finished))"
  by pat_completeness auto
termination
  by (relation "measure (\<lambda>(max_delayed, st). length (fst st))") auto

declare finish_delayed_streams.simps [simp del]

definition finalizeVerticalMergeForOneColumn ::
  "GlobalRuntimeContext \<times> VerticalMergeRuntimeContext
     \<Rightarrow> error + (GlobalRuntimeContext \<times> VerticalMergeRuntimeContext)" where
  "finalizeVerticalMergeForOneColumn gv =
     (let (g, v) = gv in
      if it_name_and_type v \<ge> length (gathering_columns g) then Inl UndefinedBehaviour
      else if merges_blocker g \<or> is_cancelled (merge_list_element g)
      then Inl (ABORTED ''Cancelled merging parts'')
      else
        let (delayed, finished) =
              finish_delayed_streams (max_delayed_streams v)
                (delayed_streams v @ (case column_to v of Some s \<Rightarrow> [s] | None \<Rightarrow> []),
                 finished_streams v)
        in if rows_written g \<noteq> column_elems_written v
           then Inl (LOGICAL_ERROR ''Written {} elements of column {}, but {} rows of PK columns'')
           else
             Inr (g \<lparr> merge_list_element := (merge_list_element g)
                        \<lparr> columns_written := columns_written (merge_list_element g) + 1 \<rparr> \<rparr>,
                  v \<lparr> executor := None,
                      column_to := None,
                      delayed_streams := delayed,
                      finished_streams := finished,
                      column_num_for_vertical_merge := column_num_for_vertical_merge v + 1,
                      it_name_and_type := it_name_and_type v + 1 \<rparr>))"

definition executeVerticalMergeForAllColumns ::
  "GlobalRuntimeContext \<times> VerticalMergeRuntimeContext
     \<Rightarrow> error + (bool \<times> GlobalRuntimeContext \<times> VerticalMergeRuntimeContext)" where
  "executeVerticalMergeForAllColumns gv =
     (let (g, v) = gv in
      if chosen_merge_algorithm g \<noteq> Vertical then Inr (False, g, v)
      else if column_num_for_vertical_merge v \<ge> gathering_column_names_size g then Inr (False, g, v)
      else
        (case vertical_merge_one_column_state v of
           NEED_PREPARE \<Rightarrow>
             (case prepareVerticalMergeForOneColumn (g, v) of
                Inl e \<Rightarrow> Inl e
              | Inr (g', v') \<Rightarrow> Inr (True, g', v' \<lparr> vertical_merge_one_column_state := NEED_EXECUTE \<rparr>))
         | NEED_EXECUTE \<Rightarrow>
             (case executeVerticalMergeForOneColumn (g, v) of
                (True, g', v') \<Rightarrow> Inr (True, g', v')
              | (False, g', v') \<Rightarrow> Inr (True, g', v' \<lparr> vertical_merge_one_column_state := NEED_FINISH \<rparr>))
         | NEED_FINISH \<Rightarrow>
             (case finalizeVerticalMergeForOneColumn (g, v) of
                Inl e \<Rightarrow> Inl e
              | Inr (g', v') \<Rightarrow> Inr (True, g', v' \<lparr> vertical_merge_one_column_state := NEED_PREPARE \<rparr>))))"

definition finalizeVerticalMergeForAllColumns ::
  "GlobalRuntimeContext \<times> VerticalMergeRuntimeContext
     \<Rightarrow> error + (bool \<times> GlobalRuntimeContext \<times> VerticalMergeRuntimeContext)" where
  "finalizeVerticalMergeForAllColumns gv =
     (let (g, v) = gv in
      Inr (False, g, v \<lparr> finished_streams := finished_streams v @ delayed_streams v \<rparr>))"

section \<open>MergeProjectionsStage\<close>

text \<open>
  The arguments with which \<open>mergeMinMaxIndexAndPrepareProjections\<close> constructs the nested
  merge task of a projection.
\<close>

record ProjectionMergeTask =
  pt_future_part_name :: string
  pt_future_part_parts :: "string list"
  pt_time_of_merge :: nat
  pt_deduplicate :: bool
  pt_merging_params_mode :: MergingParams_Mode
  pt_need_prefix :: bool
  pt_parent_part :: NewDataPart
  pt_suffix :: string

record MergeProjectionsRuntimeContext =
  tasks_for_projections :: "ProjectionMergeTask list"
  projections_iterator :: nat

text \<open>The projection parts of the given name that the source parts have, in order.\<close>

fun select_projection_parts :: "string \<Rightarrow> DataPart list \<Rightarrow> string list" where
  "select_projection_parts pname [] = []"
| "select_projection_parts pname (part # rest) =
     (case map_of (projection_parts part) pname of
        Some projection_part \<Rightarrow> projection_part # select_projection_parts pname rest
      | None \<Rightarrow> select_projection_parts pname rest)"

text \<open>
  The body of the loop over the projections: the tasks so far, extended by the task for this
  projection unless some source part has no such projection part. The log line reads
  \<open>projection_parts.front()\<close>, which is undefined when the list is empty.
\<close>

definition prepare_projection ::
  "GlobalRuntimeContext \<Rightarrow> ProjectionDescription \<Rightarrow> ProjectionMergeTask list
     \<Rightarrow> error + ProjectionMergeTask list" where
  "prepare_projection g projection tasks =
     (let projection_parts' = select_projection_parts (projection_name projection) (fp_parts (future_part g))
      in if length projection_parts' < length (fp_parts (future_part g)) then Inr tasks
         else if projection_parts' = [] then Inl UndefinedBehaviour
         else
           let mode0 = Ordinary;
               mode1 = (if projection_type projection = Aggregate then Aggregating else mode0)
           in Inr (tasks @
                   [\<lparr> pt_future_part_name = projection_name projection,
                      pt_future_part_parts = projection_parts',
                      pt_time_of_merge = time_of_merge g,
                      pt_deduplicate = deduplicate g,
                      pt_merging_params_mode = mode1,
                      pt_need_prefix = need_prefix g,
                      pt_parent_part = new_data_part g,
                      pt_suffix = ''.proj'' \<rparr>]))"

fun prepare_projections ::
  "GlobalRuntimeContext \<Rightarrow> ProjectionDescription list \<Rightarrow> ProjectionMergeTask list
     \<Rightarrow> error + ProjectionMergeTask list" where
  "prepare_projections g [] tasks = Inr tasks"
| "prepare_projections g (projection # rest) tasks =
     (case prepare_projection g projection tasks of
        Inl e \<Rightarrow> Inl e
      | Inr tasks' \<Rightarrow> prepare_projections g rest tasks')"

text \<open>
  \<open>mergeMinMaxIndexAndPrepareProjections\<close>; the merge of the min-max indices of the
  non-empty parts is left out.
\<close>

definition mergeMinMaxIndexAndPrepareProjections ::
  "GlobalRuntimeContext \<times> MergeProjectionsRuntimeContext
     \<Rightarrow> error + (bool \<times> GlobalRuntimeContext \<times> MergeProjectionsRuntimeContext)" where
  "mergeMinMaxIndexAndPrepareProjections gp =
     (let (g, p) = gp in
      case prepare_projections g (md_projections (metadata_snapshot g)) (tasks_for_projections p) of
        Inl e \<Rightarrow> Inl e
      | Inr tasks \<Rightarrow> Inr (False, g, p \<lparr> tasks_for_projections := tasks, projections_iterator := 0 \<rparr>))"

text \<open>
  The checksums of the vector index files, by index name: \<open>add\<close> enters the files under the
  name of the index.
\<close>

fun checksums_add :: "(string \<times> string list) list \<Rightarrow> string \<Rightarrow> string list \<Rightarrow> (string \<times> string list) list" where
  "checksums_add [] index_name files = [(index_name, files)]"
| "checksums_add ((n, fs) # rest) index_name files =
     (if n = index_name then (n, fs @ files) # rest
      else (n, fs) # checksums_add rest index_name files)"

fun move_index_files_loop ::
  "(bool \<Rightarrow> string \<Rightarrow> string \<Rightarrow> string \<Rightarrow> string list) \<Rightarrow> string \<Rightarrow> DataPart list \<Rightarrow> nat
     \<Rightarrow> (string \<times> string list) list \<Rightarrow> (string \<times> string list) list" where
  "move_index_files_loop move vec_index [] i tmp = tmp"
| "move_index_files_loop move vec_index (old_part # rest) i tmp =
     (if rows_count old_part = 0 then move_index_files_loop move vec_index rest (Suc i) tmp
      else move_index_files_loop move vec_index rest (Suc i)
             (checksums_add tmp vec_index (move True (toString i) (part_name old_part) vec_index)))"

fun decouple_indices_files_loop ::
  "GlobalRuntimeContext \<Rightarrow> string list \<Rightarrow> (string \<times> string list) list \<Rightarrow> (string \<times> string list) list" where
  "decouple_indices_files_loop g [] tmp = tmp"
| "decouple_indices_files_loop g (vec_index # rest) tmp =
     (if all_parts_have_vector_index g vec_index = Some True
      then decouple_indices_files_loop g rest
             (move_index_files_loop (moveVectorIndexFiles g) vec_index (fp_parts (future_part g)) 0 tmp)
      else decouple_indices_files_loop g rest tmp)"

text \<open>
  The names of the row ids maps that enter the checksums: a part with no rows is skipped.
\<close>

fun row_ids_map_filenames :: "string \<Rightarrow> DataPart list \<Rightarrow> nat \<Rightarrow> string list" where
  "row_ids_map_filenames sfx [] i = []"
| "row_ids_map_filenames sfx (part # rest) i =
     (if rows_count part = 0 then row_ids_map_filenames sfx rest (Suc i)
      else (''merged-'' @ toString i @ ''-'' @ part_name part @ ''-row_ids_map'' @ sfx)
             # row_ids_map_filenames sfx rest (Suc i))"

definition index_map_filenames :: "GlobalRuntimeContext \<Rightarrow> string list" where
  "index_map_filenames g =
     [''merged-inverted_row_sources_map'' @ VECTOR_INDEX_FILE_SUFFIX (constants g),
      ''merged-inverted_row_ids_map'' @ VECTOR_INDEX_FILE_SUFFIX (constants g)]
     @ row_ids_map_filenames (VECTOR_INDEX_FILE_SUFFIX (constants g)) (fp_parts (future_part g)) 0"

fun single_vpart_files_loop ::
  "GlobalRuntimeContext \<Rightarrow> DataPart \<Rightarrow> string list \<Rightarrow> (string \<times> string list) list
     \<Rightarrow> (string \<times> string list) list" where
  "single_vpart_files_loop g old_part [] dumped = dumped"
| "single_vpart_files_loop g old_part (vec_index # rest) dumped =
     (if all_parts_have_vector_index g vec_index = Some True
      then single_vpart_files_loop g old_part rest
             (dumped @ [(vec_index, moveVectorIndexFiles g False (toString 0) (part_name old_part) vec_index)])
      else single_vpart_files_loop g old_part rest dumped)"

text \<open>
  Modelled from the spec: \<open>finalizePart\<close> is outside the modelled sources; it records in the
  new part the number of rows that were written to the output stream.

  \<open>finalizeProjectionsAndWholeMerge\<close>: \<open>vector_index_checksums\<close> receives, for every
  \<open>dumpCheckSums\<close>, the index name and the names of the files in the checksums written.
\<close>

definition finalizeProjectionsAndWholeMerge ::
  "GlobalRuntimeContext \<times> MergeProjectionsRuntimeContext
     \<Rightarrow> error + (bool \<times> GlobalRuntimeContext \<times> MergeProjectionsRuntimeContext)" where
  "finalizeProjectionsAndWholeMerge gp =
     (let (g, p) = gp;
          g1 = g \<lparr> new_data_part := (new_data_part g)
                     \<lparr> np_projection_parts :=
                         np_projection_parts (new_data_part g) @ map pt_future_part_name (tasks_for_projections p),
                       np_rows_count := rows_written g \<rparr> \<rparr>;
          g2 = (if np_rows_count (new_data_part g1) = 0
                then g1 \<lparr> can_be_decouple := False, only_one_vpart_merged := False \<rparr>
                else g1)
      in if can_be_decouple g2
         then
           let vector_index_checksums_map_tmp =
                 decouple_indices_files_loop g2 (md_vector_indices (metadata_snapshot g2)) [];
               dumped = map (\<lambda>(vector_index_name, files). (vector_index_name, files @ index_map_filenames g2))
                          vector_index_checksums_map_tmp;
               g3 = g2 \<lparr> vector_index_checksums := vector_index_checksums g2 @ dumped \<rparr>
           in Inr (False, g3 \<lparr> promise := Some (new_data_part g3) \<rparr>, p)
         else if only_one_vpart_merged g2
         then
           if first_part_with_data g2 \<ge> length (fp_parts (future_part g2)) then Inl UndefinedBehaviour
           else
             let old_part = fp_parts (future_part g2) ! first_part_with_data g2;
                 g3 = g2 \<lparr> vector_index_checksums :=
                             single_vpart_files_loop g2 old_part (md_vector_indices (metadata_snapshot g2))
                               (vector_index_checksums g2) \<rparr>
             in Inr (False, g3 \<lparr> promise := Some (new_data_part g3) \<rparr>, p)
         else Inr (False, g2 \<lparr> promise := Some (new_data_part g2) \<rparr>, p))"

definition task_view ::
  "ProjectionMergeTask \<Rightarrow> string \<times> string list \<times> MergingParams_Mode \<times> NewDataPart \<times> string" where
  "task_view t = (pt_future_part_name t, pt_future_part_parts t, pt_merging_params_mode t,
                  pt_parent_part t, pt_suffix t)"

section \<open>Notions used to state and prove the properties\<close>

text \<open>
  For one vector index: a part that has a built index; a part that answers
  \<open>getColumnIndex\<close> and has no rows; the first part that answers and has rows.
\<close>

definition has_built_index :: "string \<Rightarrow> DataPart \<Rightarrow> bool" where
  "has_built_index vec_index part = (map_of (vector_index part) vec_index = Some BUILT)"

definition has_index_and_empty :: "string \<Rightarrow> DataPart \<Rightarrow> bool" where
  "has_index_and_empty vec_index part =
     (map_of (vector_index part) vec_index \<noteq> None \<and> rows_count part = 0)"

fun first_with_data :: "string \<Rightarrow> DataPart list \<Rightarrow> nat \<Rightarrow> nat option" where
  "first_with_data vec_index [] i = None"
| "first_with_data vec_index (part # rest) i =
     (if map_of (vector_index part) vec_index \<noteq> None \<and> rows_count part \<noteq> 0 then Some i
      else first_with_data vec_index rest (Suc i))"

definition eligible_index :: "DataPart list \<Rightarrow> string \<Rightarrow> bool" where
  "eligible_index ps vec_index =
     (length ps > 0
      \<and> length (filter (has_built_index vec_index) ps)
          + length (filter (has_index_and_empty vec_index) ps) = length ps)"

text \<open>
  Every non-empty source has a built index of the given name; exactly one source is not
  empty and it has no lightweight delete.
\<close>

definition every_nonempty_source_built :: "DataPart list \<Rightarrow> string \<Rightarrow> bool" where
  "every_nonempty_source_built ps idx =
     (\<forall>p \<in> set ps. rows_count p \<noteq> 0 \<longrightarrow> map_of (vector_index p) idx = Some BUILT)"

definition single_vpart_without_lwd :: "DataPart list \<Rightarrow> bool" where
  "single_vpart_without_lwd ps =
     (\<exists>p. filter (\<lambda>p. rows_count p \<noteq> 0) ps = [p] \<and> \<not> hasLightweightDelete p)"

text \<open>
  The files entered in the checksums under an index name; the index data files that
  \<open>moveVectorIndexFiles\<close> reports as moved for an index, over the source parts that have
  rows, each part given with its number.
\<close>

definition files_of :: "(string \<times> string list) list \<Rightarrow> string \<Rightarrow> string set" where
  "files_of tmp n = (case map_of tmp n of None \<Rightarrow> {} | Some fs \<Rightarrow> set fs)"

definition moved_files ::
  "(bool \<Rightarrow> string \<Rightarrow> string \<Rightarrow> string \<Rightarrow> string list) \<Rightarrow> string \<Rightarrow> (nat \<times> DataPart) list \<Rightarrow> string set" where
  "moved_files move idx ips =
     (\<Union>(j, part) \<in> {(j, part) \<in> set ips. rows_count part \<noteq> 0}.
        set (move True (toString j) (part_name part) idx))"

text \<open>
  Modelled from the spec: the row of the merged output that an old-part row became. The
  rows sources stream has one record for every row that the merging transform read, in the
  order in which it read them, with the source part of the row and, in the modes that drop
  rows, the skip flag of a row that it dropped. A record stands for an emitted row unless
  the mode is one that reads the skip flag and the flag is set. The merged row of the
  record at position \<open>p\<close> is the number of emitted records before it; the old row that the
  record stands for is given by the part offsets of its source, at the number of earlier
  records of the same source.
\<close>

definition row_emitted :: "bool \<Rightarrow> RowSourcePart \<Rightarrow> bool" where
  "row_emitted check_skip r = (\<not> (check_skip \<and> getSkipFlag r))"

definition emitted_rows :: "bool \<Rightarrow> RowSourcePart list \<Rightarrow> RowSourcePart list" where
  "emitted_rows check_skip stream = filter (row_emitted check_skip) stream"




section \<open>Concrete inputs\<close>

definition settings0 :: MergeTreeSettings where
  "settings0 = \<lparr> enable_vertical_merge_algorithm = 1,
                 allow_vertical_merges_from_compact_to_wide_parts = False,
                 vertical_merge_algorithm_min_columns_to_activate = 2,
                 vertical_merge_algorithm_min_rows_to_activate = 3,
                 enable_decouple_vector_index = True \<rparr>"

definition mk_part :: "string \<Rightarrow> nat \<Rightarrow> (string \<times> VectorIndexState) list \<Rightarrow> DataPart" where
  "mk_part n rows vi =
     \<lparr> part_name = n, rows_count = rows, marks_count = (if rows = 0 then 0 else 1),
       part_offset_column = [0 ..< rows], isWidePart = True, vector_index = vi,
       hasLightweightDelete = False, storage_on_disk = True, projection_parts = [],
       all_ttl_calculated = True, part_min_ttl = 0 \<rparr>"

definition metadata0 :: StorageInMemoryMetadata where
  "metadata0 = \<lparr> md_columns = [(''k'', ''UInt64''), (''v'', ''Array(Float32)''), (''s'', ''String'')],
                 md_sorting_key_columns = [''k''],
                 md_secondary_indices = [],
                 md_hasAnyTTL = False,
                 md_vector_indices = [''vi''],
                 md_projections = [] \<rparr>"

definition new_part0 :: NewDataPart where
  "new_part0 = \<lparr> np_name = [], np_full_path = ''/t/'', np_directory_exists = False,
                 np_rows_count = 0, np_part_min_ttl = 0, np_columns_ttl = [],
                 np_expired_columns = [], np_merged_source_parts = [],
                 np_projection_parts = [], np_is_temp = False, np_tmp_directory = [] \<rparr>"

text \<open>
  A fresh task for the merge of two parts with two rows each, both with a built vector
  index, whose rows the merge interleaves.
\<close>

definition g0 :: GlobalRuntimeContext where
  "g0 = \<lparr> constants = \<lparr> MAX_PARTS = 127, VECTOR_INDEX_FILE_SUFFIX = ''.vidx'',
                          DEFAULT_DELAYED_STREAMS_FOR_PARALLEL_WRITE = 1000 \<rparr>,
          future_part = \<lparr> fp_name = ''all_1_2_1'',
                            fp_parts = [mk_part ''A'' 2 [(''vi'', BUILT)], mk_part ''B'' 2 [(''vi'', BUILT)]],
                            fp_merge_type = Regular, fp_part_type = Wide, fp_storage_type = Full \<rparr>,
          metadata_snapshot = metadata0,
          data_settings = settings0,
          merge_list_element = \<lparr> total_rows_count = 4, rows_read = 4, is_cancelled = False,
                                   columns_written = 0 \<rparr>,
          merges_blocker = False,
          ttl_merges_blocker = False,
          deduplicate = False,
          need_prefix = True,
          parent_part = None,
          time_of_merge = 1000,
          input_rows_filtered = 0,
          merged_pipeline_blocks = [4],
          rows_sources_written =
            [\<lparr> getSourceNum = 0, getSkipFlag = False \<rparr>, \<lparr> getSourceNum = 1, getSkipFlag = False \<rparr>,
             \<lparr> getSourceNum = 0, getSkipFlag = False \<rparr>, \<lparr> getSourceNum = 1, getSkipFlag = False \<rparr>],
          gathered_column_blocks = (\<lambda>column_name. [4]),
          moveVectorIndexFiles =
            (\<lambda>decouple part_id pname index_name.
               [(if decouple then ''merged-'' @ part_id @ ''-'' @ pname @ ''-'' else []) @ index_name @ ''.vidx'']),
          new_data_part = new_part0,
          storage_columns = [],
          all_column_names = [],
          gathering_columns = [],
          gathering_column_names = [],
          merging_columns = [],
          merging_column_names = [],
          chosen_merge_algorithm = Undecided,
          can_be_decouple = False,
          only_one_vpart_merged = False,
          all_parts_have_vector_index = Map.empty,
          first_part_with_data = 0,
          inverted_row_ids_map_file_path = [],
          row_ids_map_files = [],
          inverted_row_sources_map_file_path = [],
          rows_written = 0,
          merging_executor = None,
          merged_transform_rows_sources = False,
          gathering_column_names_size = 0,
          inverted_row_ids_map_buf = [],
          row_ids_map_bufs = [],
          bitmap_updates = [],
          vector_index_checksums = [],
          promise = None \<rparr>"

definition c0 :: ExecuteAndFinalizeHorizontalPartRuntimeContext where
  "c0 = \<lparr> suffix = [],
          merging_params = \<lparr> mode = Ordinary, sign_column = [], version_column = [],
                               is_deleted_column = [] \<rparr>,
          need_remove_expired_values = False,
          force_ttl = False,
          rows_sources_write_buf = False,
          rows_sources_file = ''/tmp/rows_sources'',
          rows_sources_file_keep = False,
          blocks_are_granules_size = False,
          is_cancelled_need_remove = False,
          need_sync = False \<rparr>"

definition v0 :: VerticalMergeRuntimeContext where
  "v0 = \<lparr> supportParallelWrite = False,
          max_insert_delayed_streams_for_parallel_write = None,
          rows_sources_read_buf = False,
          column_num_for_vertical_merge = 0,
          it_name_and_type = 0,
          vertical_merge_one_column_state = NEED_PREPARE,
          executor = None,
          column_to = None,
          column_elems_written = 0,
          delayed_streams = [],
          finished_streams = [],
          max_delayed_streams = 0 \<rparr>"

definition p0 :: MergeProjectionsRuntimeContext where
  "p0 = \<lparr> tasks_for_projections = [], projections_iterator = 0 \<rparr>"

text \<open>
  The same merge in Replacing mode with no version column and no \<open>is_deleted\<close> column, on
  a table with an empty sorting key and no vector index.
\<close>

definition g_replacing :: GlobalRuntimeContext where
  "g_replacing =
     g0 \<lparr> metadata_snapshot := metadata0 \<lparr> md_sorting_key_columns := [], md_vector_indices := [] \<rparr> \<rparr>"

definition c_replacing :: ExecuteAndFinalizeHorizontalPartRuntimeContext where
  "c_replacing =
     c0 \<lparr> merging_params := \<lparr> mode = Replacing, sign_column = [], version_column = [],
                                is_deleted_column = [] \<rparr> \<rparr>"

text \<open>
  The same merge when part \<open>A\<close> reports a minimum row TTL of 500, before the time of the
  merge, and merges with TTL are blocked.
\<close>

definition g_ttl :: GlobalRuntimeContext where
  "g_ttl =
     g0 \<lparr> future_part := (future_part g0)
            \<lparr> fp_parts := [(mk_part ''A'' 2 [(''vi'', BUILT)]) \<lparr> part_min_ttl := 500 \<rparr>,
                            mk_part ''B'' 2 [(''vi'', BUILT)]] \<rparr>,
          ttl_merges_blocker := True \<rparr>"

text \<open>The same merge in Summing mode.\<close>

definition c_summing :: ExecuteAndFinalizeHorizontalPartRuntimeContext where
  "c_summing = c0 \<lparr> merging_params := (merging_params c0) \<lparr> mode := Summing \<rparr> \<rparr>"

text \<open>
  A vertical merge in the middle of gathering the column \<open>v\<close>, of which one block of two
  rows was written and one is still to be pulled, when the merge is cancelled.
\<close>

definition g_gathering :: GlobalRuntimeContext where
  "g_gathering =
     g0 \<lparr> chosen_merge_algorithm := Vertical,
          gathering_columns := [(''v'', ''Array(Float32)''), (''s'', ''String'')],
          gathering_column_names := [''v'', ''s''],
          gathering_column_names_size := 2,
          rows_written := 4,
          merges_blocker := True \<rparr>"

definition v_gathering :: VerticalMergeRuntimeContext where
  "v_gathering =
     v0 \<lparr> rows_sources_read_buf := True,
          vertical_merge_one_column_state := NEED_EXECUTE,
          executor := Some [2],
          column_to := Some ''v'',
          column_elems_written := 2 \<rparr>"

text \<open>
  Calling \<open>execute\<close> of the gather loop up to \<open>n\<close> times, as long as it asks to be called
  again.
\<close>

fun execute_gather_loop ::
  "nat \<Rightarrow> GlobalRuntimeContext \<times> VerticalMergeRuntimeContext
     \<Rightarrow> error + (bool \<times> GlobalRuntimeContext \<times> VerticalMergeRuntimeContext)" where
  "execute_gather_loop 0 gv = Inr (True, gv)"
| "execute_gather_loop (Suc n) gv =
     (case executeVerticalMergeForAllColumns gv of
        Inl e \<Rightarrow> Inl e
      | Inr (again, gv') \<Rightarrow> if again then execute_gather_loop n gv' else Inr (False, gv'))"

text \<open>
  The same merge on a table with three projections, of which part \<open>B\<close> lacks the third.
\<close>

definition g_projections :: GlobalRuntimeContext where
  "g_projections =
     g0 \<lparr> future_part := (future_part g0)
            \<lparr> fp_parts :=
                [(mk_part ''A'' 2 [(''vi'', BUILT)])
                   \<lparr> projection_parts := [(''p1'', ''A/p1.proj''), (''p2'', ''A/p2.proj''), (''p3'', ''A/p3.proj'')] \<rparr>,
                 (mk_part ''B'' 2 [(''vi'', BUILT)])
                   \<lparr> projection_parts := [(''p1'', ''B/p1.proj''), (''p2'', ''B/p2.proj'')] \<rparr>] \<rparr>,
          metadata_snapshot := metadata0
            \<lparr> md_projections :=
                [\<lparr> projection_name = ''p1'', projection_type = Normal \<rparr>,
                 \<lparr> projection_name = ''p2'', projection_type = Aggregate \<rparr>,
                 \<lparr> projection_name = ''p3'', projection_type = Normal \<rparr>] \<rparr> \<rparr>"

text \<open>
  A horizontal merge of which every block was written, cancelled after its last block was
  pulled.
\<close>

definition g_cancelled_late :: GlobalRuntimeContext where
  "g_cancelled_late =
     g0 \<lparr> chosen_merge_algorithm := Horizontal, rows_written := 4, merges_blocker := True \<rparr>"

text \<open>A vertical merge at the end of its horizontal stage.\<close>

definition g_vertical :: GlobalRuntimeContext where
  "g_vertical =
     g0 \<lparr> chosen_merge_algorithm := Vertical,
          merged_transform_rows_sources := True,
          merging_column_names := [''k''],
          gathering_columns := [(''v'', ''Array(Float32)''), (''s'', ''String'')],
          gathering_column_names := [''v'', ''s''],
          rows_written := 4 \<rparr>"

text \<open>The merge of the single part \<open>A\<close>, which has a built vector index.\<close>

definition g_single_vpart :: GlobalRuntimeContext where
  "g_single_vpart =
     g0 \<lparr> future_part := (future_part g0) \<lparr> fp_parts := [mk_part ''A'' 2 [(''vi'', BUILT)]] \<rparr>,
          merge_list_element := (merge_list_element g0) \<lparr> total_rows_count := 2, rows_read := 2 \<rparr>,
          merged_pipeline_blocks := [2],
          rows_sources_written := [\<lparr> getSourceNum = 0, getSkipFlag = False \<rparr>, \<lparr> getSourceNum = 0, getSkipFlag = False \<rparr>] \<rparr>"

text \<open>
  The merge of the parts \<open>A\<close> and \<open>B\<close> with a third part \<open>E\<close> that has no rows and no
  built index.
\<close>

definition g_with_empty_part :: GlobalRuntimeContext where
  "g_with_empty_part =
     g0 \<lparr> future_part := (future_part g0)
            \<lparr> fp_parts := [mk_part ''A'' 2 [(''vi'', BUILT)], mk_part ''B'' 2 [(''vi'', BUILT)],
                            mk_part ''E'' 0 [(''vi'', PENDING)]] \<rparr> \<rparr>"

text \<open>
  The merge of the parts \<open>A\<close> and \<open>B\<close>, of one row each, in Replacing mode, when the row of
  \<open>B\<close> replaces the row of \<open>A\<close>.
\<close>

definition g_replaced_row :: GlobalRuntimeContext where
  "g_replaced_row =
     g0 \<lparr> future_part := (future_part g0)
            \<lparr> fp_parts := [mk_part ''A'' 1 [(''vi'', BUILT)], mk_part ''B'' 1 [(''vi'', BUILT)]] \<rparr>,
          merge_list_element := (merge_list_element g0) \<lparr> total_rows_count := 2, rows_read := 2 \<rparr>,
          merged_pipeline_blocks := [1],
          rows_sources_written :=
            [\<lparr> getSourceNum = 0, getSkipFlag = True \<rparr>, \<lparr> getSourceNum = 1, getSkipFlag = False \<rparr>] \<rparr>"

text \<open>
  The state of that merge before its finalization, as a vertical merge that wrote four rows
  and can be decoupled for the index \<open>vi\<close>.
\<close>

definition g_decoupled :: GlobalRuntimeContext where
  "g_decoupled =
     g_with_empty_part \<lparr> can_be_decouple := True,
                          all_parts_have_vector_index := [''vi'' \<mapsto> True],
                          chosen_merge_algorithm := Vertical,
                          rows_written := 4 \<rparr>"

text \<open>
  The merge of \<open>g0\<close> when part \<open>A\<close> has three rows of which row 1 is deleted by a
  lightweight delete, so that its part offsets are 0 and 2.
\<close>

definition g_lightweight_deleted :: GlobalRuntimeContext where
  "g_lightweight_deleted =
     g0 \<lparr> future_part := (future_part g0)
            \<lparr> fp_parts := [(mk_part ''A'' 3 [(''vi'', BUILT)])
                               \<lparr> part_offset_column := [0, 2], hasLightweightDelete := True \<rparr>,
                            mk_part ''B'' 2 [(''vi'', BUILT)]] \<rparr>,
          merge_list_element := (merge_list_element g0) \<lparr> total_rows_count := 5 \<rparr> \<rparr>"

text \<open>
  The merge of \<open>g0\<close> with \<open>deduplicate\<close>, when the merged pipeline delivers two rows: two
  of the four rows that the merging transform emits are removed as duplicates.
\<close>

definition g_deduplicate :: GlobalRuntimeContext where
  "g_deduplicate = g0 \<lparr> deduplicate := True, merged_pipeline_blocks := [2] \<rparr>"
section \<open>Evaluation of the concrete inputs\<close>

lemmas concrete_defs = g0_def c0_def v0_def p0_def settings0_def metadata0_def mk_part_def new_part0_def
  g_replacing_def c_replacing_def g_ttl_def c_summing_def g_gathering_def v_gathering_def
  g_projections_def g_cancelled_late_def g_vertical_def g_single_vpart_def
  g_with_empty_part_def g_replaced_row_def g_decoupled_def g_lightweight_deleted_def g_deduplicate_def

lemmas prepare_defs = prepare_def prepare_checks_def prepare_columns_def prepare_algorithm_def
  createMergedStream_def prepare_decouple_def decouple_index_step_def
  extractMergingAndGatheringColumns_def key_columns_of_def prepare_ttl_def ttl_infos_update_def
  chooseMergeAlgorithm_def prepare_row_ids_maps_def prepare_expired_columns_def
  local_tmp_part_basename_def isTTLMergeType_def

lemmas generate_defs = generateRowIdsMap_def read_part_offsets_def is_collapsing_mode_def
  rows_sources_file_content_def write_part_row_ids_map_def write_row_ids_ordinary.simps
  write_row_ids_collapsing.simps UINT64_MAX_def INT_MAX_def

section \<open>Properties of chooseMergeAlgorithm\<close>

lemma some_part_not_wide_iff: "some_part_not_wide ps \<longleftrightarrow> (\<exists>p \<in> set ps. \<not> isWidePart p)"
  by (induction ps) auto

text \<open>
  C3. \<open>chooseMergeAlgorithm\<close> returns Horizontal if deduplication is requested, the vertical
  merge setting is 0, TTL eviction is active, the future part is not Wide, its storage is not
  Full, some source part is not wide while vertical merges from compact to wide parts are not
  allowed, the merging mode is none of Ordinary, Collapsing, Replacing, VersionedCollapsing,
  there are fewer gathering columns or fewer total rows than the activation thresholds, or
  there are more source parts than \<open>MAX_PARTS\<close>; otherwise it returns Vertical.
\<close>

theorem chooseMergeAlgorithm_decision:
  "chooseMergeAlgorithm g c =
     (if deduplicate g
         \<or> enable_vertical_merge_algorithm (data_settings g) = 0
         \<or> need_remove_expired_values c
         \<or> fp_part_type (future_part g) \<noteq> Wide
         \<or> fp_storage_type (future_part g) \<noteq> Full
         \<or> ((\<exists>p \<in> set (fp_parts (future_part g)). \<not> isWidePart p)
              \<and> \<not> allow_vertical_merges_from_compact_to_wide_parts (data_settings g))
         \<or> mode (merging_params c) \<notin> {Ordinary, Collapsing, Replacing, VersionedCollapsing}
         \<or> length (gathering_columns g)
              < vertical_merge_algorithm_min_columns_to_activate (data_settings g)
         \<or> total_rows_count (merge_list_element g)
              < vertical_merge_algorithm_min_rows_to_activate (data_settings g)
         \<or> length (fp_parts (future_part g)) > MAX_PARTS (constants g)
      then Horizontal else Vertical)"
  unfolding chooseMergeAlgorithm_def Let_def some_part_not_wide_iff
  by (auto simp: not_le)

theorem chooseMergeAlgorithm_decision_witness:
  "chooseMergeAlgorithm (g0 \<lparr> gathering_columns := [(''v'', ''Array(Float32)''), (''s'', ''String'')] \<rparr>) c0 = Vertical
   \<and> chooseMergeAlgorithm g0 c0 = Horizontal
   \<and> chooseMergeAlgorithm (g0 \<lparr> gathering_columns := [(''v'', ''Array(Float32)''), (''s'', ''String'')] \<rparr>)
        (c0 \<lparr> merging_params := (merging_params c0) \<lparr> mode := Summing \<rparr> \<rparr>) = Horizontal"
  using chooseMergeAlgorithm_decision
          [of "g0 \<lparr> gathering_columns := [(''v'', ''Array(Float32)''), (''s'', ''String'')] \<rparr>" c0]
        chooseMergeAlgorithm_decision [of g0 c0]
        chooseMergeAlgorithm_decision
          [of "g0 \<lparr> gathering_columns := [(''v'', ''Array(Float32)''), (''s'', ''String'')] \<rparr>"
              "c0 \<lparr> merging_params := (merging_params c0) \<lparr> mode := Summing \<rparr> \<rparr>"]
  by (simp add: g0_def c0_def settings0_def mk_part_def)

section \<open>The merging columns\<close>

text \<open>
  C10. For every merge the set of merging columns is non-empty: with no column required by
  the sorting key, the secondary indexes and the merging mode, the first storage column is
  forced into the merging set. The code forces the first column only when \<open>key_columns\<close> is
  empty; in Replacing mode the names of the version column and of the \<open>is_deleted\<close> column
  are entered also when they are empty strings, so that, on a table with an empty sorting
  key, \<open>key_columns\<close> holds the empty string, no column is forced, and a vertical merge is
  prepared with no merging column.
\<close>

theorem extract_replacing_empty_key_no_merging_column:
  "extractMergingAndGatheringColumns [(''a'', ''UInt64''), (''b'', ''String'')] [] []
     \<lparr> mode = Replacing, sign_column = [], version_column = [], is_deleted_column = [] \<rparr>
   = Inr ([(''a'', ''UInt64''), (''b'', ''String'')], [''a'', ''b''], [], [])
   \<and> (\<exists>g c. prepare (g_replacing, c_replacing) = Inr (False, g, c)
          \<and> chosen_merge_algorithm g = Vertical
          \<and> merging_columns g = [] \<and> merging_column_names g = []
          \<and> gathering_column_names g = [''k'', ''v'', ''s''])"
  by (simp add: prepare_defs concrete_defs Let_def toString.simps)

section \<open>The decoupled vector index\<close>

lemma decouple_parts_loop_eq:
  "decouple_parts_loop vec_index ps i (nw, ec, first) =
     (nw + length (filter (has_built_index vec_index) ps),
      ec + length (filter (has_index_and_empty vec_index) ps),
      case first of None \<Rightarrow> first_with_data vec_index ps i | Some j \<Rightarrow> Some j)"
proof (induction ps arbitrary: i nw ec first)
  case Nil
  then show ?case by (simp split: option.splits)
next
  case (Cons p ps)
  show ?case
  proof (cases "map_of (vector_index p) vec_index")
    case None
    then show ?thesis
      by (simp add: Cons.IH has_built_index_def has_index_and_empty_def split: option.splits)
  next
    case (Some st)
    then show ?thesis
      by (cases first) (simp_all add: Cons.IH has_built_index_def has_index_and_empty_def)
  qed
qed

lemma first_with_data_Some:
  "first_with_data vec_index ps i = Some j
   \<Longrightarrow> i \<le> j \<and> j - i < length ps \<and> rows_count (ps ! (j - i)) \<noteq> 0
       \<and> (\<forall>m < j - i. rows_count (ps ! m) = 0 \<or> map_of (vector_index (ps ! m)) vec_index = None)"
proof (induction ps arbitrary: i)
  case Nil
  then show ?case by simp
next
  case (Cons p ps)
  show ?case
  proof (cases "map_of (vector_index p) vec_index \<noteq> None \<and> rows_count p \<noteq> 0")
    case True
    with Cons.prems show ?thesis by simp
  next
    case False
    with Cons.prems have r: "first_with_data vec_index ps (Suc i) = Some j" by auto
    from Cons.IH [OF r] have a: "Suc i \<le> j" and b: "j - Suc i < length ps"
      and c: "rows_count (ps ! (j - Suc i)) \<noteq> 0"
      and d: "\<forall>m < j - Suc i. rows_count (ps ! m) = 0 \<or> map_of (vector_index (ps ! m)) vec_index = None"
      by simp_all
    from a have e: "j - i = Suc (j - Suc i)" by simp
    have "\<forall>m < j - i. rows_count ((p # ps) ! m) = 0 \<or> map_of (vector_index ((p # ps) ! m)) vec_index = None"
    proof (intro allI impI)
      fix m assume "m < j - i"
      then show "rows_count ((p # ps) ! m) = 0 \<or> map_of (vector_index ((p # ps) ! m)) vec_index = None"
        using False d e by (cases m) auto
    qed
    with a b c e show ?thesis by simp
  qed
qed

lemma first_with_data_None:
  "first_with_data vec_index ps i = None
   \<longleftrightarrow> (\<forall>p \<in> set ps. map_of (vector_index p) vec_index = None \<or> rows_count p = 0)"
  by (induction ps arbitrary: i) auto


lemma decouple_index_step_eq:
  "decouple_index_step ps vec_index (first, mx, have, can) =
     ((case first of None \<Rightarrow> first_with_data vec_index ps 0 | Some j \<Rightarrow> Some j),
      max mx (length (filter (has_built_index vec_index) ps)),
      (if eligible_index ps vec_index then have(vec_index \<mapsto> True) else have),
      can \<or> eligible_index ps vec_index)"
  by (auto simp: decouple_index_step_def decouple_parts_loop_eq eligible_index_def Let_def max_def)

lemma decouple_indices_loop_props:
  "decouple_indices_loop ps vis (first, mx, have, can) = (first', mx', have', can')
   \<Longrightarrow> can' = (can \<or> (\<exists>idx \<in> set vis. eligible_index ps idx))
     \<and> mx \<le> mx'
     \<and> (\<forall>idx \<in> set vis. length (filter (has_built_index idx) ps) \<le> mx')
     \<and> (mx' = mx \<or> (\<exists>idx \<in> set vis. mx' = length (filter (has_built_index idx) ps)))
     \<and> (first' = None \<longrightarrow> first = None \<and> (\<forall>idx \<in> set vis. first_with_data idx ps 0 = None))
     \<and> (\<forall>j. first' = Some j \<longrightarrow> first = Some j \<or> (\<exists>idx \<in> set vis. first_with_data idx ps 0 = Some j))
     \<and> (\<forall>idx. have' idx = (if idx \<in> set vis \<and> eligible_index ps idx then Some True else have idx))"
proof (induction vis arbitrary: first mx "have" can)
  case Nil
  then show ?case by simp
next
  case (Cons v vis)
  let ?f = "case first of None \<Rightarrow> first_with_data v ps 0 | Some j \<Rightarrow> Some j"
  let ?m = "max mx (length (filter (has_built_index v) ps))"
  let ?h = "if eligible_index ps v then have(v \<mapsto> True) else have"
  let ?c = "can \<or> eligible_index ps v"
  from Cons.prems
  have r: "decouple_indices_loop ps vis (?f, ?m, ?h, ?c) = (first', mx', have', can')"
    unfolding decouple_indices_loop.simps decouple_index_step_eq .
  note ih = Cons.IH [OF r]
  from ih have 1: "can' = (can \<or> (\<exists>idx \<in> set (v # vis). eligible_index ps idx))" by auto
  from ih have 2: "mx \<le> mx'" by auto
  from ih have 3: "\<forall>idx \<in> set (v # vis). length (filter (has_built_index idx) ps) \<le> mx'" by auto
  from ih have 4: "mx' = mx \<or> (\<exists>idx \<in> set (v # vis). mx' = length (filter (has_built_index idx) ps))"
    by (auto simp: max_def split: if_splits)
  from ih have 5: "first' = None \<longrightarrow> first = None \<and> (\<forall>idx \<in> set (v # vis). first_with_data idx ps 0 = None)"
    by (auto split: option.splits)
  from ih have 6: "\<forall>j. first' = Some j \<longrightarrow> first = Some j \<or> (\<exists>idx \<in> set (v # vis). first_with_data idx ps 0 = Some j)"
    by (auto split: option.splits)
  from ih have 7: "\<forall>idx. have' idx = (if idx \<in> set (v # vis) \<and> eligible_index ps idx then Some True else have idx)"
    by auto
  from 1 2 3 4 5 6 7 show ?case by blast
qed


lemma filter_length_le_eq:
  assumes "\<forall>x \<in> set xs. P x \<longrightarrow> Q x"
  shows "length (filter P xs) \<le> length (filter Q xs)
       \<and> (length (filter P xs) = length (filter Q xs) \<longleftrightarrow> (\<forall>x \<in> set xs. Q x \<longrightarrow> P x))"
  using assms
proof (induction xs)
  case Nil
  then show ?case by simp
next
  case (Cons x xs)
  then have ih: "length (filter P xs) \<le> length (filter Q xs)"
    and ih2: "length (filter P xs) = length (filter Q xs) \<longleftrightarrow> (\<forall>x \<in> set xs. Q x \<longrightarrow> P x)"
    by simp_all
  from Cons.prems have px: "P x \<longrightarrow> Q x" by simp
  show ?case using ih ih2 px by auto
qed

lemma eligible_index_iff:
  assumes h1: "\<forall>p \<in> set ps. map_of (vector_index p) idx \<noteq> None"
    and h2: "\<forall>p \<in> set ps. rows_count p = 0 \<longrightarrow> map_of (vector_index p) idx \<noteq> Some BUILT"
  shows "length (filter (has_built_index idx) ps) \<le> length (filter (\<lambda>p. rows_count p \<noteq> 0) ps)"
    and "eligible_index ps idx
         \<longleftrightarrow> ps \<noteq> [] \<and> (\<forall>p \<in> set ps. rows_count p \<noteq> 0 \<longrightarrow> map_of (vector_index p) idx = Some BUILT)"
    and "eligible_index ps idx
         \<Longrightarrow> length (filter (has_built_index idx) ps) = length (filter (\<lambda>p. rows_count p \<noteq> 0) ps)"
proof -
  have e: "filter (has_index_and_empty idx) ps = filter (\<lambda>p. rows_count p = 0) ps"
    using h1 by (intro filter_cong) (auto simp: has_index_and_empty_def)
  have n: "length ps = length (filter (\<lambda>p. rows_count p = 0) ps) + length (filter (\<lambda>p. rows_count p \<noteq> 0) ps)"
    using sum_length_filter_compl [of "\<lambda>p. rows_count p = 0" ps] by simp
  have imp: "\<forall>p \<in> set ps. has_built_index idx p \<longrightarrow> rows_count p \<noteq> 0"
    using h2 by (auto simp: has_built_index_def)
  from filter_length_le_eq [OF imp]
  have le: "length (filter (has_built_index idx) ps) \<le> length (filter (\<lambda>p. rows_count p \<noteq> 0) ps)"
    and eq: "length (filter (has_built_index idx) ps) = length (filter (\<lambda>p. rows_count p \<noteq> 0) ps)
             \<longleftrightarrow> (\<forall>p \<in> set ps. rows_count p \<noteq> 0 \<longrightarrow> has_built_index idx p)"
    by simp_all
  show "length (filter (has_built_index idx) ps) \<le> length (filter (\<lambda>p. rows_count p \<noteq> 0) ps)"
    by (rule le)
  have el: "eligible_index ps idx
      \<longleftrightarrow> ps \<noteq> [] \<and> length (filter (has_built_index idx) ps) = length (filter (\<lambda>p. rows_count p \<noteq> 0) ps)"
    unfolding eligible_index_def e using n by auto
  show "eligible_index ps idx
         \<longleftrightarrow> ps \<noteq> [] \<and> (\<forall>p \<in> set ps. rows_count p \<noteq> 0 \<longrightarrow> map_of (vector_index p) idx = Some BUILT)"
    unfolding el eq by (simp add: has_built_index_def)
  show "eligible_index ps idx
         \<Longrightarrow> length (filter (has_built_index idx) ps) = length (filter (\<lambda>p. rows_count p \<noteq> 0) ps)"
    using el by simp
qed

lemma filter_singleton_nth:
  assumes "filter P xs = [x]" and "j < length xs" and "P (xs ! j)"
  shows "xs ! j = x"
proof -
  from assms(2,3) have "xs ! j \<in> set (filter P xs)" by simp
  with assms(1) show ?thesis by simp
qed

lemma prepare_decouple_result:
  assumes en: "enable_decouple_vector_index (data_settings g)"
    and fresh: "\<not> can_be_decouple g"
    and ne: "fp_parts (future_part g) \<noteq> []"
    and h1: "\<forall>p \<in> set (fp_parts (future_part g)). \<forall>idx \<in> set (md_vector_indices (metadata_snapshot g)).
               map_of (vector_index p) idx \<noteq> None"
    and h2: "\<forall>p \<in> set (fp_parts (future_part g)). \<forall>idx \<in> set (md_vector_indices (metadata_snapshot g)).
               rows_count p = 0 \<longrightarrow> map_of (vector_index p) idx \<noteq> Some BUILT"
  shows "\<exists>g'. prepare_decouple g = Inr g'
     \<and> (can_be_decouple g' \<longleftrightarrow>
          (\<exists>idx \<in> set (md_vector_indices (metadata_snapshot g)).
              every_nonempty_source_built (fp_parts (future_part g)) idx)
          \<and> \<not> single_vpart_without_lwd (fp_parts (future_part g)))
     \<and> (only_one_vpart_merged g' \<longleftrightarrow>
          only_one_vpart_merged g
          \<or> (\<exists>idx \<in> set (md_vector_indices (metadata_snapshot g)).
                every_nonempty_source_built (fp_parts (future_part g)) idx)
            \<and> single_vpart_without_lwd (fp_parts (future_part g)))
     \<and> (\<forall>idx. all_parts_have_vector_index g' idx =
           (if idx \<in> set (md_vector_indices (metadata_snapshot g))
               \<and> every_nonempty_source_built (fp_parts (future_part g)) idx
            then Some True else all_parts_have_vector_index g idx))
     \<and> (only_one_vpart_merged g' \<and> \<not> only_one_vpart_merged g
          \<longrightarrow> first_part_with_data g' < length (fp_parts (future_part g))
              \<and> filter (\<lambda>p. rows_count p \<noteq> 0) (fp_parts (future_part g))
                  = [fp_parts (future_part g) ! first_part_with_data g'])
     \<and> future_part g' = future_part g \<and> metadata_snapshot g' = metadata_snapshot g
     \<and> row_ids_map_files g' = row_ids_map_files g \<and> constants g' = constants g
     \<and> new_data_part g' = new_data_part g \<and> chosen_merge_algorithm g' = chosen_merge_algorithm g
     \<and> merging_column_names g' = merging_column_names g"
proof -
  let ?ps = "fp_parts (future_part g)"
  let ?vis = "md_vector_indices (metadata_snapshot g)"
  let ?N = "length (filter (\<lambda>p. rows_count p \<noteq> 0) ?ps)"
  let ?E = "\<exists>idx \<in> set ?vis. every_nonempty_source_built ?ps idx"
  obtain first mx hv can where
    loop: "decouple_indices_loop ?ps ?vis (None, 0, all_parts_have_vector_index g, can_be_decouple g)
             = (first, mx, hv, can)"
    by (cases "decouple_indices_loop ?ps ?vis (None, 0, all_parts_have_vector_index g, can_be_decouple g)") auto
  note props = decouple_indices_loop_props [OF loop]
  from props have p3: "\<forall>idx \<in> set ?vis. length (filter (has_built_index idx) ?ps) \<le> mx" by simp
  from props have p4: "mx = 0 \<or> (\<exists>idx \<in> set ?vis. mx = length (filter (has_built_index idx) ?ps))" by simp
  from props have p5: "first = None \<longrightarrow> (\<forall>idx \<in> set ?vis. first_with_data idx ?ps 0 = None)" by simp
  from props have p6: "\<forall>j. first = Some j \<longrightarrow> (\<exists>idx \<in> set ?vis. first_with_data idx ?ps 0 = Some j)" by simp
  have el: "\<And>idx. idx \<in> set ?vis \<Longrightarrow> eligible_index ?ps idx \<longleftrightarrow> every_nonempty_source_built ?ps idx"
    using eligible_index_iff(2) [of ?ps] h1 h2 ne by (simp add: every_nonempty_source_built_def)
  have nb_le: "\<And>idx. idx \<in> set ?vis \<Longrightarrow> length (filter (has_built_index idx) ?ps) \<le> ?N"
    using eligible_index_iff(1) [of ?ps] h1 h2 by simp
  have nb_eq: "\<And>idx. idx \<in> set ?vis \<Longrightarrow> eligible_index ?ps idx
                 \<Longrightarrow> length (filter (has_built_index idx) ?ps) = ?N"
    using eligible_index_iff(3) [of ?ps] h1 h2 by simp
  have can: "can = ?E" using props fresh el by auto
  have hv: "\<forall>idx. hv idx = (if idx \<in> set ?vis \<and> every_nonempty_source_built ?ps idx
                              then Some True else all_parts_have_vector_index g idx)"
    using props el by auto
  have mxN: "?E \<Longrightarrow> mx = ?N"
  proof -
    assume "?E"
    then obtain i0 where i0: "i0 \<in> set ?vis" and e0: "eligible_index ?ps i0" using el by auto
    from p3 i0 have "length (filter (has_built_index i0) ?ps) \<le> mx" by auto
    with nb_eq [OF i0 e0] have ge: "?N \<le> mx" by simp
    from p4 nb_le have "mx \<le> ?N" by auto
    with ge show "mx = ?N" by simp
  qed
  show ?thesis
  proof (cases "can \<and> mx = 1")
    case False
    then have ns: "\<not> (?E \<and> ?N = 1)" using can mxN by auto
    have nsv: "?E \<Longrightarrow> \<not> single_vpart_without_lwd ?ps"
      using ns by (auto simp: single_vpart_without_lwd_def)
    from False loop en
    have r: "prepare_decouple g = Inr (g \<lparr> all_parts_have_vector_index := hv, can_be_decouple := can,
                     first_part_with_data :=
                       (case first of None \<Rightarrow> first_part_with_data g | Some i \<Rightarrow> i) \<rparr>)"
      by (auto simp: prepare_decouple_def Let_def)
    show ?thesis
      unfolding r using can hv nsv by auto
  next
    case True
    then have E: "?E" and N1: "?N = 1" using can mxN by auto
    from N1 obtain p where p: "filter (\<lambda>p. rows_count p \<noteq> 0) ?ps = [p]"
      by (cases "filter (\<lambda>p. rows_count p \<noteq> 0) ?ps") auto
    then have pin: "p \<in> set ?ps" and pne: "rows_count p \<noteq> 0"
      using filter_eq_ConsD [of "\<lambda>p. rows_count p \<noteq> 0" ?ps p "[]"] by auto
    from E obtain i0 where i0: "i0 \<in> set ?vis" and b0: "every_nonempty_source_built ?ps i0" by blast
    from b0 pin pne have "map_of (vector_index p) i0 = Some BUILT"
      by (simp add: every_nonempty_source_built_def)
    with pin pne have "first_with_data i0 ?ps 0 \<noteq> None"
      by (auto simp: first_with_data_None)
    with p5 i0 have "first \<noteq> None" by auto
    then obtain j where j: "first = Some j" by auto
    with p6 obtain i1 where "first_with_data i1 ?ps 0 = Some j" by auto
    from first_with_data_Some [OF this] have jl: "j < length ?ps" and jr: "rows_count (?ps ! j) \<noteq> 0"
      by simp_all
    from filter_singleton_nth [OF p jl jr] have pj: "?ps ! j = p" .
    have sv: "single_vpart_without_lwd ?ps \<longleftrightarrow> \<not> hasLightweightDelete p"
      using p by (simp add: single_vpart_without_lwd_def)
    show ?thesis
    proof (cases "hasLightweightDelete p")
      case lwd: True
      from True loop en j pj lwd
      have r: "prepare_decouple g = Inr (g \<lparr> all_parts_have_vector_index := hv, can_be_decouple := can,
                     first_part_with_data := j \<rparr>)"
        by (auto simp: prepare_decouple_def Let_def)
      show ?thesis unfolding r using can hv sv lwd E by auto
    next
      case nolwd: False
      from True loop en j pj nolwd
      have r: "prepare_decouple g = Inr (g \<lparr> all_parts_have_vector_index := hv, can_be_decouple := can,
                     first_part_with_data := j, only_one_vpart_merged := True, can_be_decouple := False \<rparr>)"
        by (auto simp: prepare_decouple_def Let_def)
      show ?thesis unfolding r using can hv sv nolwd E jl pj p by auto
    qed
  qed
qed


lemma prepare_columns_frame:
  assumes "prepare_columns g c = Inr g2"
  shows "ttl_merges_blocker g2 = ttl_merges_blocker g \<and> merges_blocker g2 = merges_blocker g
       \<and> future_part g2 = future_part g \<and> metadata_snapshot g2 = metadata_snapshot g
       \<and> data_settings g2 = data_settings g \<and> merge_list_element g2 = merge_list_element g
       \<and> can_be_decouple g2 = can_be_decouple g \<and> only_one_vpart_merged g2 = only_one_vpart_merged g
       \<and> all_parts_have_vector_index g2 = all_parts_have_vector_index g
       \<and> first_part_with_data g2 = first_part_with_data g
       \<and> row_ids_map_files g2 = row_ids_map_files g
       \<and> time_of_merge g2 = time_of_merge g \<and> constants g2 = constants g
       \<and> np_full_path (new_data_part g2) = np_full_path (new_data_part g)"
  using assms
  by (auto simp: prepare_columns_def Let_def split: sum.splits prod.splits)

lemma prepare_algorithm_frame:
  assumes "prepare_algorithm g c = Inr (g5, c2)"
  shows "future_part g5 = future_part g \<and> metadata_snapshot g5 = metadata_snapshot g
       \<and> data_settings g5 = data_settings g
       \<and> can_be_decouple g5 = can_be_decouple g \<and> only_one_vpart_merged g5 = only_one_vpart_merged g
       \<and> all_parts_have_vector_index g5 = all_parts_have_vector_index g
       \<and> first_part_with_data g5 = first_part_with_data g
       \<and> row_ids_map_files g5 = row_ids_map_files g
       \<and> constants g5 = constants g
       \<and> np_full_path (new_data_part g5) = np_full_path (new_data_part g)"
  using assms
  by (auto simp: prepare_algorithm_def Let_def split: prod.splits MergeAlgorithm.splits)

lemma prepare_tail_frame:
  assumes "prepare_row_ids_maps (g6, c2) = (g7, c3)"
    and "createMergedStream g7 c3' = (g8, c4)"
    and "g' = (prepare_expired_columns g8 c4) \<lparr> rows_written := 0 \<rparr>"
  shows "can_be_decouple g' = can_be_decouple g6 \<and> only_one_vpart_merged g' = only_one_vpart_merged g6
       \<and> all_parts_have_vector_index g' = all_parts_have_vector_index g6
       \<and> first_part_with_data g' = first_part_with_data g6
       \<and> future_part g' = future_part g6 \<and> metadata_snapshot g' = metadata_snapshot g6
       \<and> constants g' = constants g6
       \<and> row_ids_map_files g' =
           (if can_be_decouple g6
            then row_ids_map_files g6
                 @ row_ids_map_file_names (np_full_path (new_data_part g6))
                     (VECTOR_INDEX_FILE_SUFFIX (constants g6)) (fp_parts (future_part g6)) 0
            else row_ids_map_files g6)"
  using assms
  by (auto simp: prepare_row_ids_maps_def createMergedStream_def prepare_expired_columns_def Let_def
      split: prod.splits if_splits)

lemma prepare_InrD:
  assumes "prepare (g, c) = Inr (b, g', c')"
  shows "\<exists>g5 g6. prepare_decouple g5 = Inr g6
       \<and> fp_parts (future_part g) \<noteq> []
       \<and> future_part g5 = future_part g \<and> metadata_snapshot g5 = metadata_snapshot g
       \<and> data_settings g5 = data_settings g
       \<and> can_be_decouple g5 = can_be_decouple g \<and> only_one_vpart_merged g5 = only_one_vpart_merged g
       \<and> all_parts_have_vector_index g5 = all_parts_have_vector_index g
       \<and> first_part_with_data g5 = first_part_with_data g
       \<and> row_ids_map_files g5 = row_ids_map_files g
       \<and> constants g5 = constants g
       \<and> np_full_path (new_data_part g5) = np_full_path (new_data_part g)
       \<and> can_be_decouple g' = can_be_decouple g6 \<and> only_one_vpart_merged g' = only_one_vpart_merged g6
       \<and> all_parts_have_vector_index g' = all_parts_have_vector_index g6
       \<and> first_part_with_data g' = first_part_with_data g6
       \<and> future_part g' = future_part g6 \<and> metadata_snapshot g' = metadata_snapshot g6
       \<and> constants g' = constants g6
       \<and> row_ids_map_files g' =
           (if can_be_decouple g6
            then row_ids_map_files g6
                 @ row_ids_map_file_names (np_full_path (new_data_part g6))
                     (VECTOR_INDEX_FILE_SUFFIX (constants g6)) (fp_parts (future_part g6)) 0
            else row_ids_map_files g6)"
proof -
  from assms have chk: "prepare_checks g = None"
    by (auto simp: prepare_def split: option.splits)
  then have ne: "fp_parts (future_part g) \<noteq> []"
    by (auto simp: prepare_checks_def split: if_splits)
  from assms chk obtain g2 where g2: "prepare_columns g c = Inr g2"
    by (auto simp: prepare_def split: sum.splits)
  from assms chk g2 obtain g5 c2 where g5: "prepare_algorithm g2 c = Inr (g5, c2)"
    by (auto simp: prepare_def split: sum.splits)
  from assms chk g2 g5 obtain g6 where g6: "prepare_decouple g5 = Inr g6"
    by (auto simp: prepare_def split: sum.splits)
  obtain g7 c3 where g7: "prepare_row_ids_maps (g6, c2) = (g7, c3)"
    by (cases "prepare_row_ids_maps (g6, c2)") auto
  obtain g8 c4 where g8: "createMergedStream g7 (c3 \<lparr> blocks_are_granules_size := (chosen_merge_algorithm g7 = Vertical) \<rparr>) = (g8, c4)"
    by (cases "createMergedStream g7 (c3 \<lparr> blocks_are_granules_size := (chosen_merge_algorithm g7 = Vertical) \<rparr>)") auto
  from assms chk g2 g5 g6 g7 g8 have g': "g' = (prepare_expired_columns g8 c4) \<lparr> rows_written := 0 \<rparr>"
    by (simp add: prepare_def)
  note f1 = prepare_columns_frame [OF g2]
  note f2 = prepare_algorithm_frame [OF g5]
  note f3 = prepare_tail_frame [OF g7 g8 g']
  show ?thesis
    using g6 ne f1 f2 f3 by (intro exI [of _ g5] exI [of _ g6]) simp
qed


lemma prepare_decouple_disabled:
  "\<not> enable_decouple_vector_index (data_settings g) \<Longrightarrow> prepare_decouple g = Inr g"
  by (simp add: prepare_decouple_def)

lemma finalize_zero_rows:
  "finalizeProjectionsAndWholeMerge (gf, p) = Inr (b2, g2, p2) \<Longrightarrow> np_rows_count (new_data_part g2) = 0
   \<Longrightarrow> \<not> can_be_decouple g2 \<and> \<not> only_one_vpart_merged g2"
  by (auto simp: finalizeProjectionsAndWholeMerge_def Let_def split: if_splits)

text \<open>
  C2, as the claim states it: \<open>can_be_decouple\<close> is set during \<open>prepare\<close> if and only if, for
  some vector index, every non-empty source part has a built index. It fails for the merge of
  a single part with a built index and no lightweight delete: the merged part stays a plain
  VPart, \<open>only_one_vpart_merged\<close> is set and \<open>can_be_decouple\<close> is reset.
\<close>

theorem single_vpart_not_decoupled_counterexample:
  "\<exists>g' c'. prepare (g_single_vpart, c0) = Inr (False, g', c')
      \<and> only_one_vpart_merged g'
      \<and> \<not> (can_be_decouple g' \<longleftrightarrow>
             (\<exists>idx \<in> set (md_vector_indices (metadata_snapshot g_single_vpart)).
                \<forall>part \<in> set (fp_parts (future_part g_single_vpart)).
                  rows_count part \<noteq> 0 \<longrightarrow> map_of (vector_index part) idx = Some BUILT))"
  by (simp add: prepare_defs concrete_defs Let_def toString.simps)

text \<open>
  C2, amended. On a fresh task whose source parts all answer \<open>getColumnIndex\<close> for every
  vector index, and whose empty source parts have no built index, \<open>prepare\<close> leaves
  \<open>can_be_decouple\<close> set if and only if the setting \<open>enable_decouple_vector_index\<close> is on, for
  some vector index every non-empty source part has a built index, and it is not the case
  that exactly one source part is non-empty and has no lightweight delete; in that case
  \<open>only_one_vpart_merged\<close> is set instead. The finalizer resets both flags when the new part
  has no rows.
\<close>

theorem prepare_can_be_decouple:
  assumes p: "prepare (g, c) = Inr (b, g', c')"
    and fresh: "\<not> can_be_decouple g \<and> \<not> only_one_vpart_merged g"
    and h1: "\<forall>part \<in> set (fp_parts (future_part g)). \<forall>idx \<in> set (md_vector_indices (metadata_snapshot g)).
               map_of (vector_index part) idx \<noteq> None"
    and h2: "\<forall>part \<in> set (fp_parts (future_part g)). \<forall>idx \<in> set (md_vector_indices (metadata_snapshot g)).
               rows_count part = 0 \<longrightarrow> map_of (vector_index part) idx \<noteq> Some BUILT"
  shows "(can_be_decouple g' \<longleftrightarrow>
            enable_decouple_vector_index (data_settings g)
            \<and> (\<exists>idx \<in> set (md_vector_indices (metadata_snapshot g)).
                  \<forall>part \<in> set (fp_parts (future_part g)).
                    rows_count part \<noteq> 0 \<longrightarrow> map_of (vector_index part) idx = Some BUILT)
            \<and> \<not> (\<exists>part. filter (\<lambda>part. rows_count part \<noteq> 0) (fp_parts (future_part g)) = [part]
                        \<and> \<not> hasLightweightDelete part))
       \<and> (only_one_vpart_merged g' \<longleftrightarrow>
            enable_decouple_vector_index (data_settings g)
            \<and> (\<exists>idx \<in> set (md_vector_indices (metadata_snapshot g)).
                  \<forall>part \<in> set (fp_parts (future_part g)).
                    rows_count part \<noteq> 0 \<longrightarrow> map_of (vector_index part) idx = Some BUILT)
            \<and> (\<exists>part. filter (\<lambda>part. rows_count part \<noteq> 0) (fp_parts (future_part g)) = [part]
                      \<and> \<not> hasLightweightDelete part))
       \<and> (\<forall>gf pf b2 g2 p2. finalizeProjectionsAndWholeMerge (gf, pf) = Inr (b2, g2, p2)
              \<and> np_rows_count (new_data_part g2) = 0
            \<longrightarrow> \<not> can_be_decouple g2 \<and> \<not> only_one_vpart_merged g2)"
proof -
  from prepare_InrD [OF p] obtain g5 g6 where
    d: "prepare_decouple g5 = Inr g6"
    and ne: "fp_parts (future_part g) \<noteq> []"
    and f5: "future_part g5 = future_part g" "metadata_snapshot g5 = metadata_snapshot g"
            "data_settings g5 = data_settings g" "can_be_decouple g5 = can_be_decouple g"
            "only_one_vpart_merged g5 = only_one_vpart_merged g"
    and f6: "can_be_decouple g' = can_be_decouple g6" "only_one_vpart_merged g' = only_one_vpart_merged g6"
    by blast
  have fin: "\<forall>gf pf b2 g2 p2. finalizeProjectionsAndWholeMerge (gf, pf) = Inr (b2, g2, p2)
              \<and> np_rows_count (new_data_part g2) = 0
            \<longrightarrow> \<not> can_be_decouple g2 \<and> \<not> only_one_vpart_merged g2"
    using finalize_zero_rows by blast
  show ?thesis
  proof (cases "enable_decouple_vector_index (data_settings g)")
    case False
    with f5 have "prepare_decouple g5 = Inr g5" by (simp add: prepare_decouple_disabled)
    with d have "g6 = g5" by simp
    with f5 f6 fresh False fin show ?thesis by simp
  next
    case True
    from prepare_decouple_result [of g5] True f5 fresh ne h1 h2
    obtain g6' where d': "prepare_decouple g5 = Inr g6'"
      and c6: "can_be_decouple g6' \<longleftrightarrow>
          (\<exists>idx \<in> set (md_vector_indices (metadata_snapshot g)).
              every_nonempty_source_built (fp_parts (future_part g)) idx)
          \<and> \<not> single_vpart_without_lwd (fp_parts (future_part g))"
      and o6: "only_one_vpart_merged g6' \<longleftrightarrow>
          (\<exists>idx \<in> set (md_vector_indices (metadata_snapshot g)).
                every_nonempty_source_built (fp_parts (future_part g)) idx)
            \<and> single_vpart_without_lwd (fp_parts (future_part g))"
      by auto
    from d d' have "g6' = g6" by simp
    with c6 o6 f6 True fin show ?thesis
      by (simp add: every_nonempty_source_built_def single_vpart_without_lwd_def)
  qed
qed

theorem prepare_can_be_decouple_witness:
  "\<exists>g' c'. prepare (g0, c0) = Inr (False, g', c') \<and> can_be_decouple g' \<and> \<not> only_one_vpart_merged g'"
proof -
  have "\<exists>g' c'. prepare (g0, c0) = Inr (False, g', c')"
    by (simp add: prepare_defs concrete_defs Let_def toString.simps)
  then obtain g' c' where p: "prepare (g0, c0) = Inr (False, g', c')" by blast
  have fresh: "\<not> can_be_decouple g0 \<and> \<not> only_one_vpart_merged g0" by (simp add: concrete_defs)
  have h1: "\<forall>part \<in> set (fp_parts (future_part g0)). \<forall>idx \<in> set (md_vector_indices (metadata_snapshot g0)).
               map_of (vector_index part) idx \<noteq> None"
    by (simp add: concrete_defs)
  have h2: "\<forall>part \<in> set (fp_parts (future_part g0)). \<forall>idx \<in> set (md_vector_indices (metadata_snapshot g0)).
               rows_count part = 0 \<longrightarrow> map_of (vector_index part) idx \<noteq> Some BUILT"
    by (simp add: concrete_defs)
  have rhs: "enable_decouple_vector_index (data_settings g0)
            \<and> (\<exists>idx \<in> set (md_vector_indices (metadata_snapshot g0)).
                  \<forall>part \<in> set (fp_parts (future_part g0)).
                    rows_count part \<noteq> 0 \<longrightarrow> map_of (vector_index part) idx = Some BUILT)
            \<and> \<not> (\<exists>part. filter (\<lambda>part. rows_count part \<noteq> 0) (fp_parts (future_part g0)) = [part]
                        \<and> \<not> hasLightweightDelete part)"
    by (simp add: concrete_defs)
  from prepare_can_be_decouple [OF p fresh h1 h2] rhs
  have "can_be_decouple g' \<and> \<not> only_one_vpart_merged g'" by blast
  with p show ?thesis by (intro exI [of _ g'] exI [of _ c'] conjI) simp_all
qed

section \<open>TTL merges and the TTL merges blocker\<close>

lemma prepare_ttl_blocked: "ttl_merges_blocker g \<Longrightarrow> fst (snd (prepare_ttl g)) = False"
  by (simp add: prepare_ttl_def Let_def split: prod.splits)

lemma prepare_Inr_need_remove:
  assumes "prepare (g, c) = Inr (b, g', c')"
  shows "need_remove_expired_values c'
           = fst (snd (prepare_ttl (case prepare_columns g c of Inr g2 \<Rightarrow> g2 | Inl e \<Rightarrow> g)))
       \<and> is_cancelled_need_remove c' = need_remove_expired_values c'"
  using assms
  by (auto simp: prepare_def prepare_algorithm_def prepare_row_ids_maps_def createMergedStream_def Let_def
      split: option.splits sum.splits prod.splits MergeAlgorithm.splits if_splits)


text \<open>
  C5, as the claim states it: a merge whose inputs require TTL eviction while the TTL merges
  blocker is active fails with Aborted and does not complete without eviction. It fails for
  a merge that was not assigned as a TTL merge: part \<open>A\<close> has a minimum row TTL before the
  time of the merge, \<open>prepare\<close> switches the removal of expired values off and the horizontal
  stage runs to its end.
\<close>

theorem prepare_ttl_blocker_counterexample:
  "\<exists>g c g' c' g'' c''.
      prepare (g_ttl, c0) = Inr (False, g, c)
    \<and> np_part_min_ttl (new_data_part g) = 500 \<and> time_of_merge g = 1000 \<and> ttl_merges_blocker g
    \<and> need_remove_expired_values c = False
    \<and> executeImpl (g, c) = Inr (True, g', c')
    \<and> executeImpl (g', c') = Inr (False, g'', c'')
    \<and> rows_written g'' = 4"
  by (simp add: prepare_defs concrete_defs Let_def toString.simps executeImpl_def ctx_is_cancelled_def pull_def)

text \<open>
  C5, amended. With the TTL merges blocker active, \<open>prepare\<close> raises Aborted for a merge that
  was assigned as a TTL merge; for any other merge \<open>prepare\<close>, when it succeeds, has switched
  the removal of expired values off, whatever the TTL information of the parts, and the merge
  goes on without eviction. When the blocker becomes active while a merge that removes
  expired values is executing, \<open>executeImpl\<close> raises Aborted.
\<close>

theorem prepare_ttl_merges_blocker:
  "(\<not> merges_blocker g \<and> \<not> is_cancelled (merge_list_element g)
      \<and> isTTLMergeType (fp_merge_type (future_part g)) \<and> ttl_merges_blocker g
      \<longrightarrow> prepare (g, c) = Inl (ABORTED ''Cancelled merging parts with TTL''))
   \<and> (\<forall>b g' c'. prepare (g, c) = Inr (b, g', c') \<and> ttl_merges_blocker g
         \<longrightarrow> \<not> need_remove_expired_values c' \<and> \<not> is_cancelled_need_remove c'
             \<and> \<not> isTTLMergeType (fp_merge_type (future_part g)))
   \<and> (\<not> merges_blocker g \<and> \<not> is_cancelled (merge_list_element g)
      \<and> need_remove_expired_values c \<and> is_cancelled_need_remove c \<and> ttl_merges_blocker g
      \<longrightarrow> executeImpl (g, c) = Inl (ABORTED ''Cancelled merging parts with expired TTL''))"
proof (intro conjI allI impI)
  assume "\<not> merges_blocker g \<and> \<not> is_cancelled (merge_list_element g)
      \<and> isTTLMergeType (fp_merge_type (future_part g)) \<and> ttl_merges_blocker g"
  then show "prepare (g, c) = Inl (ABORTED ''Cancelled merging parts with TTL'')"
    by (simp add: prepare_def prepare_checks_def)
next
  fix b g' c'
  assume a: "prepare (g, c) = Inr (b, g', c') \<and> ttl_merges_blocker g"
  then have p: "prepare (g, c) = Inr (b, g', c')" and t: "ttl_merges_blocker g" by simp_all
  from p obtain g2 where g2: "prepare_columns g c = Inr g2"
    by (auto simp: prepare_def split: option.splits sum.splits)
  from prepare_columns_frame [OF g2] t have "ttl_merges_blocker g2" by simp
  then have "fst (snd (prepare_ttl g2)) = False" by (rule prepare_ttl_blocked)
  with prepare_Inr_need_remove [OF p] g2
  show "\<not> need_remove_expired_values c'" and "\<not> is_cancelled_need_remove c'" by simp_all
  from p t show "\<not> isTTLMergeType (fp_merge_type (future_part g))"
    by (auto simp: prepare_def prepare_checks_def split: option.splits if_splits)
next
  assume "\<not> merges_blocker g \<and> \<not> is_cancelled (merge_list_element g)
      \<and> need_remove_expired_values c \<and> is_cancelled_need_remove c \<and> ttl_merges_blocker g"
  then show "executeImpl (g, c) = Inl (ABORTED ''Cancelled merging parts with expired TTL'')"
    by (simp add: executeImpl_def ctx_is_cancelled_def)
qed

theorem prepare_ttl_merges_blocker_witness:
  "prepare (g_ttl \<lparr> future_part := (future_part g_ttl) \<lparr> fp_merge_type := TTLDelete \<rparr> \<rparr>, c0)
     = Inl (ABORTED ''Cancelled merging parts with TTL'')
   \<and> (\<exists>g' c'. prepare (g_ttl, c0) = Inr (False, g', c') \<and> \<not> need_remove_expired_values c')
   \<and> executeImpl (g_ttl, c0 \<lparr> need_remove_expired_values := True, is_cancelled_need_remove := True \<rparr>)
       = Inl (ABORTED ''Cancelled merging parts with expired TTL'')"
proof (intro conjI)
  let ?g = "g_ttl \<lparr> future_part := (future_part g_ttl) \<lparr> fp_merge_type := TTLDelete \<rparr> \<rparr>"
  have h1: "\<not> merges_blocker ?g \<and> \<not> is_cancelled (merge_list_element ?g)
      \<and> isTTLMergeType (fp_merge_type (future_part ?g)) \<and> ttl_merges_blocker ?g"
    by (simp add: concrete_defs isTTLMergeType_def)
  from prepare_ttl_merges_blocker [of ?g c0, THEN conjunct1, rule_format, OF h1]
  show "prepare (?g, c0) = Inl (ABORTED ''Cancelled merging parts with TTL'')" .
next
  have "\<exists>g' c'. prepare (g_ttl, c0) = Inr (False, g', c')"
    by (simp add: prepare_defs concrete_defs Let_def toString.simps)
  then obtain g' c' where p: "prepare (g_ttl, c0) = Inr (False, g', c')" by blast
  have t: "ttl_merges_blocker g_ttl" by (simp add: concrete_defs)
  from prepare_ttl_merges_blocker [of g_ttl c0, THEN conjunct2, THEN conjunct1, rule_format, of False g' c'] p t
  have "\<not> need_remove_expired_values c'" by blast
  with p show "\<exists>g' c'. prepare (g_ttl, c0) = Inr (False, g', c') \<and> \<not> need_remove_expired_values c'"
    by blast
next
  let ?c = "c0 \<lparr> need_remove_expired_values := True, is_cancelled_need_remove := True \<rparr>"
  have h3: "\<not> merges_blocker g_ttl \<and> \<not> is_cancelled (merge_list_element g_ttl)
      \<and> need_remove_expired_values ?c \<and> is_cancelled_need_remove ?c \<and> ttl_merges_blocker g_ttl"
    by (simp add: concrete_defs)
  from prepare_ttl_merges_blocker [of g_ttl ?c, THEN conjunct2, THEN conjunct2, rule_format, OF h3]
  show "executeImpl (g_ttl, ?c) = Inl (ABORTED ''Cancelled merging parts with expired TTL'')" .
qed

section \<open>The element count of a gathered column\<close>

text \<open>
  C9, as the claim states it: finalizing a column whose element count differs from
  \<open>rows_written\<close> raises a LogicalError. It fails when the merge is cancelled: the
  cancellation check comes first, and a cancelled gatherer has stopped pulling, so the
  counts differ and Aborted is raised.
\<close>

theorem finalize_column_cancelled_counterexample:
  "rows_written g_gathering \<noteq> column_elems_written v_gathering
   \<and> finalizeVerticalMergeForOneColumn (g_gathering, v_gathering) = Inl (ABORTED ''Cancelled merging parts'')"
  by (simp add: concrete_defs finalizeVerticalMergeForOneColumn_def)

text \<open>
  C9, amended. In a vertical merge a column is finalized without error only if the number
  of its elements written equals \<open>rows_written\<close>; finalizing a column whose counts differ
  raises a LogicalError unless the merge is cancelled, in which case Aborted is raised.
\<close>

theorem finalizeVerticalMergeForOneColumn_counts:
  assumes "it_name_and_type v < length (gathering_columns g)"
  shows "(merges_blocker g \<or> is_cancelled (merge_list_element g)
            \<longrightarrow> finalizeVerticalMergeForOneColumn (g, v) = Inl (ABORTED ''Cancelled merging parts''))
       \<and> (\<not> merges_blocker g \<and> \<not> is_cancelled (merge_list_element g)
            \<and> rows_written g \<noteq> column_elems_written v
            \<longrightarrow> finalizeVerticalMergeForOneColumn (g, v)
                  = Inl (LOGICAL_ERROR ''Written {} elements of column {}, but {} rows of PK columns''))
       \<and> (\<forall>g' v'. finalizeVerticalMergeForOneColumn (g, v) = Inr (g', v')
            \<longrightarrow> column_elems_written v = rows_written g
                \<and> column_num_for_vertical_merge v' = column_num_for_vertical_merge v + 1)"
  using assms
  by (auto simp: finalizeVerticalMergeForOneColumn_def Let_def split: prod.splits if_splits)

theorem finalizeVerticalMergeForOneColumn_counts_witness:
  "finalizeVerticalMergeForOneColumn (g_gathering, v_gathering) = Inl (ABORTED ''Cancelled merging parts'')
   \<and> finalizeVerticalMergeForOneColumn (g_gathering \<lparr> merges_blocker := False \<rparr>, v_gathering)
       = Inl (LOGICAL_ERROR ''Written {} elements of column {}, but {} rows of PK columns'')
   \<and> (\<exists>g' v'. finalizeVerticalMergeForOneColumn
                 (g_gathering \<lparr> merges_blocker := False \<rparr>, v_gathering \<lparr> column_elems_written := 4 \<rparr>)
               = Inr (g', v')
             \<and> column_num_for_vertical_merge v' = 1)"
  using finalizeVerticalMergeForOneColumn_counts [of v_gathering g_gathering]
        finalizeVerticalMergeForOneColumn_counts [of v_gathering "g_gathering \<lparr> merges_blocker := False \<rparr>"]
        finalizeVerticalMergeForOneColumn_counts
          [of "v_gathering \<lparr> column_elems_written := 4 \<rparr>" "g_gathering \<lparr> merges_blocker := False \<rparr>"]
  by (simp add: concrete_defs finalizeVerticalMergeForOneColumn_def Let_def finish_delayed_streams.simps)

section \<open>The count of the rows sources\<close>

text \<open>
  C4, as the claim states it: whenever the rows sources stream is produced, the number of
  its entries plus \<open>input_rows_filtered\<close> equals the number of rows of the source parts, and a
  violation (with more than one source part, or a non-empty stream) raises a LogicalError.
  It fails for a horizontal merge that produces the stream for the decoupled vector index:
  in Summing mode the file is created and kept, the merging transform writes nothing to it,
  and the check of the vertical stage is skipped.
\<close>

theorem rows_sources_count_unchecked_counterexample:
  "\<exists>g c. prepare (g0, c_summing) = Inr (False, g, c)
      \<and> chosen_merge_algorithm g = Horizontal \<and> can_be_decouple g
      \<and> rows_sources_write_buf c \<and> rows_sources_file_keep c
      \<and> inverted_row_sources_map_file_path g = ''/tmp/rows_sources''
      \<and> rows_sources_file_content g = []
      \<and> length (fp_parts (future_part g)) = 2
      \<and> input_rows_filtered g = 0 \<and> rows_read (merge_list_element g) = 4
      \<and> prepareVerticalMergeForAllColumns (g, v0) = Inr (False, g, v0)"
  by (simp add: prepare_defs concrete_defs Let_def toString.simps rows_sources_file_content_def
        prepareVerticalMergeForAllColumns_def)

text \<open>
  C4, amended. In a vertical merge \<open>prepareVerticalMergeForAllColumns\<close> compares the number of
  entries of the rows sources file plus \<open>input_rows_filtered\<close> with the number of input rows
  (\<open>sum_input_rows_exact\<close>, the \<open>rows_read\<close> of the merge list element, which the error
  message calls the number of rows in source parts): when there is more than one source part
  or the file is not empty, a difference raises a LogicalError, and the step succeeds only
  if the two are equal. The bound and the position of the gather loop are set by this step
  only when it succeeds, and before that no column is gathered. In a merge that is not
  vertical the step makes no check.
\<close>

theorem prepareVerticalMergeForAllColumns_rows_sources_count:
  "(chosen_merge_algorithm g = Vertical
      \<and> (length (rows_sources_file_content g) > 0 \<or> length (fp_parts (future_part g)) > 1)
      \<and> length (rows_sources_file_content g) + input_rows_filtered g \<noteq> rows_read (merge_list_element g)
      \<longrightarrow> prepareVerticalMergeForAllColumns (g, v)
            = Inl (LOGICAL_ERROR ''Number of rows in source parts ({}) excluding filtered rows ({}) differs from number of bytes written to rows_sources file ({}). It is a bug.''))
   \<and> (\<forall>b g' v'. chosen_merge_algorithm g = Vertical
          \<and> prepareVerticalMergeForAllColumns (g, v) = Inr (b, g', v')
          \<and> (length (rows_sources_file_content g) > 0 \<or> length (fp_parts (future_part g)) > 1)
          \<longrightarrow> length (rows_sources_file_content g) + input_rows_filtered g = rows_read (merge_list_element g))
   \<and> (\<forall>b g' v'. chosen_merge_algorithm g = Vertical
          \<and> prepareVerticalMergeForAllColumns (g, v) = Inr (b, g', v')
          \<longrightarrow> \<not> b \<and> rows_sources_read_buf v' \<and> column_num_for_vertical_merge v' = 0
              \<and> it_name_and_type v' = 0
              \<and> gathering_column_names_size g' = length (gathering_column_names g))
   \<and> (gathering_column_names_size g = 0 \<longrightarrow> executeVerticalMergeForAllColumns (g, v) = Inr (False, g, v))
   \<and> (chosen_merge_algorithm g \<noteq> Vertical \<longrightarrow> prepareVerticalMergeForAllColumns (g, v) = Inr (False, g, v))"
  by (auto simp: prepareVerticalMergeForAllColumns_def executeVerticalMergeForAllColumns_def Let_def split: if_splits)

theorem prepareVerticalMergeForAllColumns_rows_sources_count_witness:
  "prepareVerticalMergeForAllColumns
     (g_vertical \<lparr> merge_list_element := (merge_list_element g_vertical) \<lparr> rows_read := 5 \<rparr> \<rparr>, v0)
     = Inl (LOGICAL_ERROR ''Number of rows in source parts ({}) excluding filtered rows ({}) differs from number of bytes written to rows_sources file ({}). It is a bug.'')
   \<and> (\<exists>g' v'. prepareVerticalMergeForAllColumns (g_vertical, v0) = Inr (False, g', v')
          \<and> gathering_column_names_size g' = 2)
   \<and> length (rows_sources_file_content g_vertical) + input_rows_filtered g_vertical
       = rows_read (merge_list_element g_vertical)
   \<and> executeVerticalMergeForAllColumns (g_vertical, v0) = Inr (False, g_vertical, v0)"
proof (intro conjI)
  let ?g = "g_vertical \<lparr> merge_list_element := (merge_list_element g_vertical) \<lparr> rows_read := 5 \<rparr> \<rparr>"
  have h: "chosen_merge_algorithm ?g = Vertical
      \<and> (length (rows_sources_file_content ?g) > 0 \<or> length (fp_parts (future_part ?g)) > 1)
      \<and> length (rows_sources_file_content ?g) + input_rows_filtered ?g \<noteq> rows_read (merge_list_element ?g)"
    by (simp add: concrete_defs rows_sources_file_content_def)
  from prepareVerticalMergeForAllColumns_rows_sources_count [of ?g v0, THEN conjunct1, rule_format, OF h]
  show "prepareVerticalMergeForAllColumns (?g, v0)
     = Inl (LOGICAL_ERROR ''Number of rows in source parts ({}) excluding filtered rows ({}) differs from number of bytes written to rows_sources file ({}). It is a bug.'')" .
next
  have "\<exists>g' v'. prepareVerticalMergeForAllColumns (g_vertical, v0) = Inr (False, g', v')"
    by (simp add: concrete_defs rows_sources_file_content_def prepareVerticalMergeForAllColumns_def Let_def)
  then obtain g' v' where p: "prepareVerticalMergeForAllColumns (g_vertical, v0) = Inr (False, g', v')"
    by blast
  have a: "chosen_merge_algorithm g_vertical = Vertical" by (simp add: concrete_defs)
  have n: "length (fp_parts (future_part g_vertical)) > 1" by (simp add: concrete_defs)
  from prepareVerticalMergeForAllColumns_rows_sources_count
         [of g_vertical v0, THEN conjunct2, THEN conjunct2, THEN conjunct1, rule_format, of False g' v'] a p
  have "gathering_column_names_size g' = length (gathering_column_names g_vertical)" by simp
  then have "gathering_column_names_size g' = 2" by (simp add: concrete_defs)
  with p show "\<exists>g' v'. prepareVerticalMergeForAllColumns (g_vertical, v0) = Inr (False, g', v')
          \<and> gathering_column_names_size g' = 2"
    by (intro exI [of _ g'] exI [of _ v'] conjI)
  from prepareVerticalMergeForAllColumns_rows_sources_count
         [of g_vertical v0, THEN conjunct2, THEN conjunct1, rule_format, of False g' v'] a p n
  show "length (rows_sources_file_content g_vertical) + input_rows_filtered g_vertical
       = rows_read (merge_list_element g_vertical)" by simp
next
  have z: "gathering_column_names_size g_vertical = 0" by (simp add: concrete_defs)
  from prepareVerticalMergeForAllColumns_rows_sources_count
         [of g_vertical v0, THEN conjunct2, THEN conjunct2, THEN conjunct2, THEN conjunct1, rule_format, OF z]
  show "executeVerticalMergeForAllColumns (g_vertical, v0) = Inr (False, g_vertical, v0)" .
qed

section \<open>Cancellation\<close>

lemma gather_loop_cancelled:
  assumes c: "merges_blocker g \<or> is_cancelled (merge_list_element g)"
    and a: "chosen_merge_algorithm g = Vertical"
    and n: "column_num_for_vertical_merge v < gathering_column_names_size g"
    and i: "it_name_and_type v < length (gathering_columns g)"
  shows "execute_gather_loop 3 (g, v) = Inl (ABORTED ''Cancelled merging parts'')"
proof -
  have fin: "\<And>v. vertical_merge_one_column_state v = NEED_FINISH
      \<Longrightarrow> column_num_for_vertical_merge v < gathering_column_names_size g
      \<Longrightarrow> it_name_and_type v < length (gathering_columns g)
      \<Longrightarrow> executeVerticalMergeForAllColumns (g, v) = Inl (ABORTED ''Cancelled merging parts'')"
    using c a by (auto simp: executeVerticalMergeForAllColumns_def finalizeVerticalMergeForOneColumn_def)
  have exe: "\<And>v. vertical_merge_one_column_state v = NEED_EXECUTE
      \<Longrightarrow> column_num_for_vertical_merge v < gathering_column_names_size g
      \<Longrightarrow> executeVerticalMergeForAllColumns (g, v)
            = Inr (True, g, v \<lparr> vertical_merge_one_column_state := NEED_FINISH \<rparr>)"
    using c a by (auto simp: executeVerticalMergeForAllColumns_def executeVerticalMergeForOneColumn_def)
  have pre: "\<And>v. vertical_merge_one_column_state v = NEED_PREPARE
      \<Longrightarrow> column_num_for_vertical_merge v < gathering_column_names_size g
      \<Longrightarrow> it_name_and_type v < length (gathering_columns g)
      \<Longrightarrow> \<exists>v'. executeVerticalMergeForAllColumns (g, v) = Inr (True, g, v')
              \<and> vertical_merge_one_column_state v' = NEED_EXECUTE
              \<and> column_num_for_vertical_merge v' = column_num_for_vertical_merge v
              \<and> it_name_and_type v' = it_name_and_type v"
    using a by (auto simp: executeVerticalMergeForAllColumns_def prepareVerticalMergeForOneColumn_def Let_def)
  show ?thesis
  proof (cases "vertical_merge_one_column_state v")
    case NEED_FINISH
    from fin [OF NEED_FINISH n i] show ?thesis by (simp add: numeral_3_eq_3)
  next
    case NEED_EXECUTE
    from exe [OF NEED_EXECUTE n]
    have s1: "executeVerticalMergeForAllColumns (g, v)
       = Inr (True, g, v \<lparr> vertical_merge_one_column_state := NEED_FINISH \<rparr>)" .
    have s2: "executeVerticalMergeForAllColumns (g, v \<lparr> vertical_merge_one_column_state := NEED_FINISH \<rparr>)
       = Inl (ABORTED ''Cancelled merging parts'')"
      using fin [of "v \<lparr> vertical_merge_one_column_state := NEED_FINISH \<rparr>"] n i by simp
    show ?thesis using s1 s2 by (simp add: numeral_3_eq_3)
  next
    case NEED_PREPARE
    from pre [OF NEED_PREPARE n i] obtain v' where
      s1: "executeVerticalMergeForAllColumns (g, v) = Inr (True, g, v')"
      and st: "vertical_merge_one_column_state v' = NEED_EXECUTE"
      and n': "column_num_for_vertical_merge v' = column_num_for_vertical_merge v"
      and i': "it_name_and_type v' = it_name_and_type v" by blast
    have s2: "executeVerticalMergeForAllColumns (g, v')
       = Inr (True, g, v' \<lparr> vertical_merge_one_column_state := NEED_FINISH \<rparr>)"
      using exe [OF st] n n' by simp
    have s3: "executeVerticalMergeForAllColumns (g, v' \<lparr> vertical_merge_one_column_state := NEED_FINISH \<rparr>)
       = Inl (ABORTED ''Cancelled merging parts'')"
      using fin [of "v' \<lparr> vertical_merge_one_column_state := NEED_FINISH \<rparr>"] n i n' i' by simp
    show ?thesis using s1 s2 s3 by (simp add: numeral_3_eq_3)
  qed
qed

lemma finalize_resolves_promise:
  "finalizeProjectionsAndWholeMerge (g, p) = Inr (b, g', p') \<Longrightarrow> promise g' = Some (new_data_part g')"
  by (auto simp: finalizeProjectionsAndWholeMerge_def Let_def split: if_splits)

text \<open>
  C8, as the claim states it: once the merges blocker or the cancel flag of the merge is
  set, the next execute step raises Aborted, and the promise is never resolved with a new
  part. It fails in two places: a gather step in state \<open>NEED_EXECUTE\<close> returns without an
  error (the error is raised by the step after it), and \<open>finalizeProjectionsAndWholeMerge\<close>
  checks no cancellation, so a merge that is cancelled after its last block was pulled
  resolves its promise with the new part.
\<close>

theorem cancellation_not_terminal_counterexample:
  "merges_blocker g_gathering
   \<and> executeVerticalMergeForAllColumns (g_gathering, v_gathering)
       = Inr (True, g_gathering, v_gathering \<lparr> vertical_merge_one_column_state := NEED_FINISH \<rparr>)
   \<and> merges_blocker g_cancelled_late
   \<and> (\<exists>g'. finalizeProjectionsAndWholeMerge (g_cancelled_late, p0) = Inr (False, g', p0)
          \<and> promise g' = Some (new_data_part g') \<and> np_rows_count (new_data_part g') = 4)"
  by (simp add: concrete_defs executeVerticalMergeForAllColumns_def
        executeVerticalMergeForOneColumn_def finalizeProjectionsAndWholeMerge_def Let_def)

text \<open>
  C8, amended. With the merges blocker or the cancel flag of the merge set, \<open>prepare\<close> and
  \<open>executeImpl\<close> raise Aborted ("Cancelled merging parts") and pull no block; in the gather
  loop of a vertical merge the step in state \<open>NEED_EXECUTE\<close> pulls no block and moves on to
  \<open>NEED_FINISH\<close>, whose step raises the same error, so that the loop raises it within three
  execute steps. These steps leave the promise as it is; it is resolved by
  \<open>finalizeProjectionsAndWholeMerge\<close> alone, which makes no cancellation check.
\<close>

theorem cancellation_checkpoints:
  "(merges_blocker g \<or> is_cancelled (merge_list_element g)
      \<longrightarrow> prepare (g, c) = Inl (ABORTED ''Cancelled merging parts'')
          \<and> executeImpl (g, c) = Inl (ABORTED ''Cancelled merging parts''))
   \<and> ((merges_blocker g \<or> is_cancelled (merge_list_element g))
       \<and> chosen_merge_algorithm g = Vertical
       \<and> column_num_for_vertical_merge v < gathering_column_names_size g
       \<and> it_name_and_type v < length (gathering_columns g)
      \<longrightarrow> (vertical_merge_one_column_state v = NEED_EXECUTE
             \<longrightarrow> executeVerticalMergeForAllColumns (g, v)
                   = Inr (True, g, v \<lparr> vertical_merge_one_column_state := NEED_FINISH \<rparr>))
          \<and> (vertical_merge_one_column_state v = NEED_FINISH
             \<longrightarrow> executeVerticalMergeForAllColumns (g, v) = Inl (ABORTED ''Cancelled merging parts''))
          \<and> execute_gather_loop 3 (g, v) = Inl (ABORTED ''Cancelled merging parts''))
   \<and> (\<forall>b g' c'. executeImpl (g, c) = Inr (b, g', c') \<longrightarrow> promise g' = promise g)
   \<and> (\<forall>b g' v'. executeVerticalMergeForAllColumns (g, v) = Inr (b, g', v') \<longrightarrow> promise g' = promise g)
   \<and> (\<forall>b g' p'. finalizeProjectionsAndWholeMerge (g, p) = Inr (b, g', p')
         \<longrightarrow> promise g' = Some (new_data_part g'))"
proof (intro conjI impI allI)
  assume "merges_blocker g \<or> is_cancelled (merge_list_element g)"
  then show "prepare (g, c) = Inl (ABORTED ''Cancelled merging parts'')"
    and "executeImpl (g, c) = Inl (ABORTED ''Cancelled merging parts'')"
    by (auto simp: prepare_def prepare_checks_def executeImpl_def ctx_is_cancelled_def)
next
  assume h: "(merges_blocker g \<or> is_cancelled (merge_list_element g))
       \<and> chosen_merge_algorithm g = Vertical
       \<and> column_num_for_vertical_merge v < gathering_column_names_size g
       \<and> it_name_and_type v < length (gathering_columns g)"
  then show "execute_gather_loop 3 (g, v) = Inl (ABORTED ''Cancelled merging parts'')"
    by (intro gather_loop_cancelled) simp_all
  {
    assume "vertical_merge_one_column_state v = NEED_EXECUTE"
    with h show "executeVerticalMergeForAllColumns (g, v)
                   = Inr (True, g, v \<lparr> vertical_merge_one_column_state := NEED_FINISH \<rparr>)"
      by (auto simp: executeVerticalMergeForAllColumns_def executeVerticalMergeForOneColumn_def)
  }
  {
    assume "vertical_merge_one_column_state v = NEED_FINISH"
    with h show "executeVerticalMergeForAllColumns (g, v) = Inl (ABORTED ''Cancelled merging parts'')"
      by (auto simp: executeVerticalMergeForAllColumns_def finalizeVerticalMergeForOneColumn_def)
  }
next
  fix b g' c'
  assume "executeImpl (g, c) = Inr (b, g', c')"
  then show "promise g' = promise g"
    by (auto simp: executeImpl_def split: option.splits if_splits)
next
  fix b g' v'
  assume "executeVerticalMergeForAllColumns (g, v) = Inr (b, g', v')"
  then show "promise g' = promise g"
    by (auto simp: executeVerticalMergeForAllColumns_def prepareVerticalMergeForOneColumn_def
        executeVerticalMergeForOneColumn_def finalizeVerticalMergeForOneColumn_def Let_def
        split: if_splits VerticalMergeRuntimeContext_State.splits sum.splits prod.splits option.splits bool.splits)
next
  fix b g' p'
  assume "finalizeProjectionsAndWholeMerge (g, p) = Inr (b, g', p')"
  then show "promise g' = Some (new_data_part g')" by (rule finalize_resolves_promise)
qed

theorem cancellation_checkpoints_witness:
  "prepare (g_cancelled_late, c0) = Inl (ABORTED ''Cancelled merging parts'')
   \<and> executeImpl (g_cancelled_late, c0) = Inl (ABORTED ''Cancelled merging parts'')
   \<and> execute_gather_loop 3 (g_gathering, v_gathering) = Inl (ABORTED ''Cancelled merging parts'')
   \<and> (\<exists>g'. finalizeProjectionsAndWholeMerge (g_cancelled_late, p0) = Inr (False, g', p0)
          \<and> promise g' = Some (new_data_part g'))"
proof (intro conjI)
  have h: "merges_blocker g_cancelled_late \<or> is_cancelled (merge_list_element g_cancelled_late)"
    by (simp add: concrete_defs)
  from cancellation_checkpoints [of g_cancelled_late c0, THEN conjunct1, rule_format, OF h]
  show "prepare (g_cancelled_late, c0) = Inl (ABORTED ''Cancelled merging parts'')"
    and "executeImpl (g_cancelled_late, c0) = Inl (ABORTED ''Cancelled merging parts'')"
    by simp_all
next
  have h: "(merges_blocker g_gathering \<or> is_cancelled (merge_list_element g_gathering))
       \<and> chosen_merge_algorithm g_gathering = Vertical
       \<and> column_num_for_vertical_merge v_gathering < gathering_column_names_size g_gathering
       \<and> it_name_and_type v_gathering < length (gathering_columns g_gathering)"
    by (simp add: concrete_defs)
  from cancellation_checkpoints [of g_gathering _ v_gathering, THEN conjunct2, THEN conjunct1, rule_format, OF h]
  show "execute_gather_loop 3 (g_gathering, v_gathering) = Inl (ABORTED ''Cancelled merging parts'')"
    by simp
next
  have "\<exists>g'. finalizeProjectionsAndWholeMerge (g_cancelled_late, p0) = Inr (False, g', p0)"
    by (simp add: concrete_defs finalizeProjectionsAndWholeMerge_def Let_def)
  then obtain g' where f: "finalizeProjectionsAndWholeMerge (g_cancelled_late, p0) = Inr (False, g', p0)"
    by blast
  from cancellation_checkpoints [of g_cancelled_late _ _ p0, THEN conjunct2, THEN conjunct2,
      THEN conjunct2, THEN conjunct2, rule_format, OF f]
  have "promise g' = Some (new_data_part g')" .
  with f show "\<exists>g'. finalizeProjectionsAndWholeMerge (g_cancelled_late, p0) = Inr (False, g', p0)
          \<and> promise g' = Some (new_data_part g')" by blast
qed

section \<open>The merge tasks of the projections\<close>

lemma select_projection_parts_length: "length (select_projection_parts n ps) \<le> length ps"
  by (induction ps) (auto split: option.splits)

lemma select_projection_parts_full:
  "length (select_projection_parts n ps) = length ps
   \<longleftrightarrow> (\<forall>p \<in> set ps. map_of (projection_parts p) n \<noteq> None)"
proof (induction ps)
  case Nil
  then show ?case by simp
next
  case (Cons p ps)
  have "length (select_projection_parts n ps) \<le> length ps"
    by (rule select_projection_parts_length)
  with Cons show ?case by (auto split: option.splits)
qed

lemma select_projection_parts_all:
  "\<forall>p \<in> set ps. map_of (projection_parts p) n \<noteq> None
   \<Longrightarrow> select_projection_parts n ps = map (\<lambda>p. the (map_of (projection_parts p) n)) ps"
  by (induction ps) (auto split: option.splits)

lemma prepare_projection_result:
  assumes "fp_parts (future_part g) \<noteq> []"
  shows "\<exists>new. prepare_projection g pr tasks = Inr (tasks @ new)
     \<and> map task_view new =
         map (\<lambda>pr. (projection_name pr,
                    map (\<lambda>part. the (map_of (projection_parts part) (projection_name pr))) (fp_parts (future_part g)),
                    (if projection_type pr = Aggregate then Aggregating else Ordinary),
                    new_data_part g, ''.proj''))
           (filter (\<lambda>pr. \<forall>part \<in> set (fp_parts (future_part g)).
                      map_of (projection_parts part) (projection_name pr) \<noteq> None) [pr])"
proof (cases "\<forall>part \<in> set (fp_parts (future_part g)). map_of (projection_parts part) (projection_name pr) \<noteq> None")
  case True
  then have len: "length (select_projection_parts (projection_name pr) (fp_parts (future_part g)))
      = length (fp_parts (future_part g))"
    by (simp add: select_projection_parts_full)
  with assms have ne: "select_projection_parts (projection_name pr) (fp_parts (future_part g)) \<noteq> []"
    by auto
  show ?thesis
    using True len ne
    by (simp add: prepare_projection_def Let_def task_view_def select_projection_parts_all)
next
  case False
  then have "length (select_projection_parts (projection_name pr) (fp_parts (future_part g)))
      \<noteq> length (fp_parts (future_part g))"
    by (simp add: select_projection_parts_full)
  with select_projection_parts_length [of "projection_name pr" "fp_parts (future_part g)"]
  have "length (select_projection_parts (projection_name pr) (fp_parts (future_part g)))
      < length (fp_parts (future_part g))"
    by linarith
  with False show ?thesis
    by (simp add: prepare_projection_def Let_def)
qed

lemma prepare_projections_result:
  assumes "fp_parts (future_part g) \<noteq> []"
  shows "\<exists>new. prepare_projections g prs tasks = Inr (tasks @ new)
     \<and> map task_view new =
         map (\<lambda>pr. (projection_name pr,
                    map (\<lambda>part. the (map_of (projection_parts part) (projection_name pr))) (fp_parts (future_part g)),
                    (if projection_type pr = Aggregate then Aggregating else Ordinary),
                    new_data_part g, ''.proj''))
           (filter (\<lambda>pr. \<forall>part \<in> set (fp_parts (future_part g)).
                      map_of (projection_parts part) (projection_name pr) \<noteq> None) prs)"
proof (induction prs arbitrary: tasks)
  case Nil
  then show ?case by simp
next
  case (Cons pr prs)
  from prepare_projection_result [OF assms, of pr tasks]
  obtain n1 where s1: "prepare_projection g pr tasks = Inr (tasks @ n1)"
    and v1: "map task_view n1 =
         map (\<lambda>pr. (projection_name pr,
                    map (\<lambda>part. the (map_of (projection_parts part) (projection_name pr))) (fp_parts (future_part g)),
                    (if projection_type pr = Aggregate then Aggregating else Ordinary),
                    new_data_part g, ''.proj''))
           (filter (\<lambda>pr. \<forall>part \<in> set (fp_parts (future_part g)).
                      map_of (projection_parts part) (projection_name pr) \<noteq> None) [pr])"
    by blast
  from Cons.IH [of "tasks @ n1"]
  obtain n2 where s2: "prepare_projections g prs (tasks @ n1) = Inr ((tasks @ n1) @ n2)"
    and v2: "map task_view n2 =
         map (\<lambda>pr. (projection_name pr,
                    map (\<lambda>part. the (map_of (projection_parts part) (projection_name pr))) (fp_parts (future_part g)),
                    (if projection_type pr = Aggregate then Aggregating else Ordinary),
                    new_data_part g, ''.proj''))
           (filter (\<lambda>pr. \<forall>part \<in> set (fp_parts (future_part g)).
                      map_of (projection_parts part) (projection_name pr) \<noteq> None) prs)"
    by blast
  have "prepare_projections g (pr # prs) tasks = Inr (tasks @ (n1 @ n2))"
    using s1 s2 by simp
  moreover have "map task_view (n1 @ n2) =
         map (\<lambda>pr. (projection_name pr,
                    map (\<lambda>part. the (map_of (projection_parts part) (projection_name pr))) (fp_parts (future_part g)),
                    (if projection_type pr = Aggregate then Aggregating else Ordinary),
                    new_data_part g, ''.proj''))
           (filter (\<lambda>pr. \<forall>part \<in> set (fp_parts (future_part g)).
                      map_of (projection_parts part) (projection_name pr) \<noteq> None) (pr # prs))"
    using v1 v2 by auto
  ultimately show ?case by blast
qed

text \<open>
  C7. A projection is merged only when every source part has a projection part of its name;
  the nested merge task is constructed, in the order of the projections, over the projection
  parts of all sources, with the merging mode Ordinary, or Aggregating for an aggregate
  projection, with the enclosing new part as parent part and the suffix ".proj". A projection
  that some source part lacks gets no task.
\<close>

theorem mergeMinMaxIndexAndPrepareProjections_tasks:
  assumes "fp_parts (future_part g) \<noteq> []"
  shows "\<exists>new. mergeMinMaxIndexAndPrepareProjections (g, p)
             = Inr (False, g, p \<lparr> tasks_for_projections := tasks_for_projections p @ new,
                                  projections_iterator := 0 \<rparr>)
     \<and> map task_view new =
         map (\<lambda>pr. (projection_name pr,
                    map (\<lambda>part. the (map_of (projection_parts part) (projection_name pr)))
                      (fp_parts (future_part g)),
                    (if projection_type pr = Aggregate then Aggregating else Ordinary),
                    new_data_part g, ''.proj''))
           (filter (\<lambda>pr. \<forall>part \<in> set (fp_parts (future_part g)).
                      map_of (projection_parts part) (projection_name pr) \<noteq> None)
              (md_projections (metadata_snapshot g)))"
proof -
  from prepare_projections_result [OF assms, of "md_projections (metadata_snapshot g)" "tasks_for_projections p"]
  obtain new where
    r: "prepare_projections g (md_projections (metadata_snapshot g)) (tasks_for_projections p)
          = Inr (tasks_for_projections p @ new)"
    and v: "map task_view new =
         map (\<lambda>pr. (projection_name pr,
                    map (\<lambda>part. the (map_of (projection_parts part) (projection_name pr)))
                      (fp_parts (future_part g)),
                    (if projection_type pr = Aggregate then Aggregating else Ordinary),
                    new_data_part g, ''.proj''))
           (filter (\<lambda>pr. \<forall>part \<in> set (fp_parts (future_part g)).
                      map_of (projection_parts part) (projection_name pr) \<noteq> None)
              (md_projections (metadata_snapshot g)))"
    by blast
  from r have "mergeMinMaxIndexAndPrepareProjections (g, p)
             = Inr (False, g, p \<lparr> tasks_for_projections := tasks_for_projections p @ new,
                                  projections_iterator := 0 \<rparr>)"
    by (simp add: mergeMinMaxIndexAndPrepareProjections_def)
  with v show ?thesis by blast
qed

theorem mergeMinMaxIndexAndPrepareProjections_tasks_witness:
  "\<exists>new. mergeMinMaxIndexAndPrepareProjections (g_projections, p0)
            = Inr (False, g_projections, p0 \<lparr> tasks_for_projections := new \<rparr>)
        \<and> map task_view new =
            [(''p1'', [''A/p1.proj'', ''B/p1.proj''], Ordinary, new_part0, ''.proj''),
             (''p2'', [''A/p2.proj'', ''B/p2.proj''], Aggregating, new_part0, ''.proj'')]"
proof -
  have ne: "fp_parts (future_part g_projections) \<noteq> []"
    by (simp add: concrete_defs)
  from mergeMinMaxIndexAndPrepareProjections_tasks [OF ne, of p0]
  obtain new where
    r: "mergeMinMaxIndexAndPrepareProjections (g_projections, p0)
          = Inr (False, g_projections, p0 \<lparr> tasks_for_projections := tasks_for_projections p0 @ new,
                                  projections_iterator := 0 \<rparr>)"
    and v: "map task_view new =
         map (\<lambda>pr. (projection_name pr,
                    map (\<lambda>part. the (map_of (projection_parts part) (projection_name pr)))
                      (fp_parts (future_part g_projections)),
                    (if projection_type pr = Aggregate then Aggregating else Ordinary),
                    new_data_part g_projections, ''.proj''))
           (filter (\<lambda>pr. \<forall>part \<in> set (fp_parts (future_part g_projections)).
                      map_of (projection_parts part) (projection_name pr) \<noteq> None)
              (md_projections (metadata_snapshot g_projections)))"
    by blast
  from r have r': "mergeMinMaxIndexAndPrepareProjections (g_projections, p0)
            = Inr (False, g_projections, p0 \<lparr> tasks_for_projections := new \<rparr>)"
    by (simp add: p0_def)
  have "map task_view new =
            [(''p1'', [''A/p1.proj'', ''B/p1.proj''], Ordinary, new_part0, ''.proj''),
             (''p2'', [''A/p2.proj'', ''B/p2.proj''], Aggregating, new_part0, ''.proj'')]"
    unfolding v by (simp add: g_projections_def g0_def metadata0_def mk_part_def)
  with r' show ?thesis by (intro exI [of _ new] conjI)
qed

section \<open>The files of the decoupled vector index\<close>

lemma row_ids_map_file_names_eq:
  "row_ids_map_file_names full_path sfx ps i =
     map (\<lambda>(j, part). full_path @ ''merged-'' @ toString j @ ''-'' @ part_name part @ ''-row_ids_map'' @ sfx)
       (enumerate i ps)"
  by (induction ps arbitrary: i) simp_all

lemma row_ids_map_filenames_eq:
  "row_ids_map_filenames sfx ps i =
     map (\<lambda>(j, part). ''merged-'' @ toString j @ ''-'' @ part_name part @ ''-row_ids_map'' @ sfx)
       (filter (\<lambda>(j, part). rows_count part \<noteq> 0) (enumerate i ps))"
  by (induction ps arbitrary: i) simp_all

lemma checksums_add_keys:
  "map fst (checksums_add tmp n fs) = (if n \<in> set (map fst tmp) then map fst tmp else map fst tmp @ [n])"
  by (induction tmp) (force+)

lemma checksums_add_props:
  "fst ` set (checksums_add tmp n fs) = insert n (fst ` set tmp)"
  "distinct (map fst tmp) \<Longrightarrow> distinct (map fst (checksums_add tmp n fs))"
  "files_of (checksums_add tmp n fs) m = (if m = n then files_of tmp n \<union> set fs else files_of tmp m)"
proof -
  have "set (map fst (checksums_add tmp n fs)) = insert n (fst ` set tmp)"
    unfolding checksums_add_keys by auto
  then show "fst ` set (checksums_add tmp n fs) = insert n (fst ` set tmp)" by simp
  show "distinct (map fst tmp) \<Longrightarrow> distinct (map fst (checksums_add tmp n fs))"
    unfolding checksums_add_keys by auto
  show "files_of (checksums_add tmp n fs) m = (if m = n then files_of tmp n \<union> set fs else files_of tmp m)"
    by (induction tmp) (auto simp: files_of_def)
qed

lemma moved_files_simps:
  "moved_files move idx [] = {}"
  "moved_files move idx ((j, part) # ips) =
     (if rows_count part \<noteq> 0 then set (move True (toString j) (part_name part) idx) else {})
     \<union> moved_files move idx ips"
  by (auto simp: moved_files_def)

lemma move_index_files_loop_props:
  "fst ` set (move_index_files_loop move idx ps i tmp)
     = fst ` set tmp \<union> (if \<exists>p \<in> set ps. rows_count p \<noteq> 0 then {idx} else {})"
  "distinct (map fst tmp) \<Longrightarrow> distinct (map fst (move_index_files_loop move idx ps i tmp))"
  "files_of (move_index_files_loop move idx ps i tmp) m
     = files_of tmp m \<union> (if m = idx then moved_files move idx (enumerate i ps) else {})"
proof -
  show "fst ` set (move_index_files_loop move idx ps i tmp)
     = fst ` set tmp \<union> (if \<exists>p \<in> set ps. rows_count p \<noteq> 0 then {idx} else {})"
    by (induction ps arbitrary: i tmp) (auto simp: checksums_add_props(1))
  show "distinct (map fst tmp) \<Longrightarrow> distinct (map fst (move_index_files_loop move idx ps i tmp))"
    by (induction ps arbitrary: i tmp) (auto simp: checksums_add_props(2))
  show "files_of (move_index_files_loop move idx ps i tmp) m
     = files_of tmp m \<union> (if m = idx then moved_files move idx (enumerate i ps) else {})"
    by (induction ps arbitrary: i tmp) (auto simp: checksums_add_props(3) moved_files_simps)
qed

lemma decouple_indices_files_loop_props:
  "fst ` set (decouple_indices_files_loop g vis tmp)
     = fst ` set tmp
       \<union> {idx \<in> set vis. all_parts_have_vector_index g idx = Some True
                           \<and> (\<exists>p \<in> set (fp_parts (future_part g)). rows_count p \<noteq> 0)}"
  "distinct (map fst tmp) \<Longrightarrow> distinct (map fst (decouple_indices_files_loop g vis tmp))"
  "files_of (decouple_indices_files_loop g vis tmp) m
     = files_of tmp m
       \<union> (if m \<in> set vis \<and> all_parts_have_vector_index g m = Some True
          then moved_files (moveVectorIndexFiles g) m (enumerate 0 (fp_parts (future_part g))) else {})"
proof -
  show "fst ` set (decouple_indices_files_loop g vis tmp)
     = fst ` set tmp
       \<union> {idx \<in> set vis. all_parts_have_vector_index g idx = Some True
                           \<and> (\<exists>p \<in> set (fp_parts (future_part g)). rows_count p \<noteq> 0)}"
    by (induction vis arbitrary: tmp) (auto simp: move_index_files_loop_props(1))
  show "distinct (map fst tmp) \<Longrightarrow> distinct (map fst (decouple_indices_files_loop g vis tmp))"
    by (induction vis arbitrary: tmp) (auto simp: move_index_files_loop_props(2))
  show "files_of (decouple_indices_files_loop g vis tmp) m
     = files_of tmp m
       \<union> (if m \<in> set vis \<and> all_parts_have_vector_index g m = Some True
          then moved_files (moveVectorIndexFiles g) m (enumerate 0 (fp_parts (future_part g))) else {})"
    by (induction vis arbitrary: tmp) (auto simp: move_index_files_loop_props(3))
qed

lemma files_of_distinct:
  "distinct (map fst tmp) \<Longrightarrow> (n, fs) \<in> set tmp \<Longrightarrow> files_of tmp n = set fs"
  by (simp add: files_of_def)


lemma decouple_indices_files_loop_cong:
  assumes "all_parts_have_vector_index g2 = all_parts_have_vector_index g"
    and "moveVectorIndexFiles g2 = moveVectorIndexFiles g"
    and "future_part g2 = future_part g"
  shows "decouple_indices_files_loop g2 vis tmp = decouple_indices_files_loop g vis tmp"
  using assms by (induction vis arbitrary: tmp) simp_all

lemma write_part_row_ids_map_length:
  "write_part_row_ids_map collapsing vis ids part s (bufs, u) = Inr (bufs', u') \<Longrightarrow> length bufs' = length bufs"
  by (auto simp: write_part_row_ids_map_def Let_def split: if_splits prod.splits sum.splits)

lemma write_row_ids_maps_length:
  "write_row_ids_maps collapsing vis ids ps s (bufs, u) = Inr (bufs', u') \<Longrightarrow> length bufs' = length bufs"
proof (induction ps arbitrary: s bufs u)
  case Nil
  then show ?case by simp
next
  case (Cons p ps)
  from Cons.prems obtain b1 u1 where
    s1: "write_part_row_ids_map collapsing vis ids p s (bufs, u) = Inr (b1, u1)"
    and s2: "write_row_ids_maps collapsing vis ids ps (Suc s) (b1, u1) = Inr (bufs', u')"
    by (auto split: sum.splits)
  from write_part_row_ids_map_length [OF s1] Cons.IH [OF s2] show ?case by simp
qed

lemma generateRowIdsMap_bufs_length:
  assumes "generateRowIdsMap (g, c) = Inr (b, g', c')" and "inverted_row_ids_map_file_path g \<noteq> []"
  shows "length (row_ids_map_bufs g') = length (row_ids_map_files g)"
proof -
  from assms obtain st bufs u where
    w: "write_row_ids_maps (is_collapsing_mode (mode (merging_params c)))
          (md_vector_indices (metadata_snapshot g)) st (fp_parts (future_part g)) 0
          (replicate (length (row_ids_map_files g)) [], bitmap_updates g) = Inr (bufs, u)"
    and r: "row_ids_map_bufs g' = bufs"
    by (auto simp: generateRowIdsMap_def Let_def split: if_splits sum.splits prod.splits)
  from write_row_ids_maps_length [OF w] r show ?thesis by simp
qed

lemma finalize_decouple_checksums:
  assumes f: "finalizeProjectionsAndWholeMerge (g, p) = Inr (b, g', p')"
    and c: "can_be_decouple g" and r: "rows_written g \<noteq> 0"
  shows "\<exists>dumped. vector_index_checksums g' = vector_index_checksums g @ dumped
      \<and> fst ` set dumped =
          {idx \<in> set (md_vector_indices (metadata_snapshot g)).
             all_parts_have_vector_index g idx = Some True
             \<and> (\<exists>part \<in> set (fp_parts (future_part g)). rows_count part \<noteq> 0)}
      \<and> (\<forall>(idx, files) \<in> set dumped.
            set files =
              moved_files (moveVectorIndexFiles g) idx (enumerate 0 (fp_parts (future_part g)))
              \<union> (\<lambda>(i, part). ''merged-'' @ toString i @ ''-'' @ part_name part @ ''-row_ids_map''
                               @ VECTOR_INDEX_FILE_SUFFIX (constants g))
                  ` {(i, part) \<in> set (enumerate 0 (fp_parts (future_part g))). rows_count part \<noteq> 0}
              \<union> {''merged-inverted_row_ids_map'' @ VECTOR_INDEX_FILE_SUFFIX (constants g),
                  ''merged-inverted_row_sources_map'' @ VECTOR_INDEX_FILE_SUFFIX (constants g)})"
proof -
  let ?vis = "md_vector_indices (metadata_snapshot g)"
  let ?tmp = "decouple_indices_files_loop g ?vis []"
  let ?imf = "index_map_filenames g"
  let ?dumped = "map (\<lambda>(n, fs). (n, fs @ ?imf)) ?tmp"
  let ?g2 = "g \<lparr> new_data_part := (new_data_part g)
                     \<lparr> np_projection_parts :=
                         np_projection_parts (new_data_part g) @ map pt_future_part_name (tasks_for_projections p),
                       np_rows_count := rows_written g \<rparr> \<rparr>"
  have cong: "decouple_indices_files_loop ?g2 ?vis [] = ?tmp"
    by (rule decouple_indices_files_loop_cong) simp_all
  have imf: "index_map_filenames ?g2 = ?imf" by (simp add: index_map_filenames_def)
  from f c r have v: "vector_index_checksums g' = vector_index_checksums g @ ?dumped"
    by (auto simp: finalizeProjectionsAndWholeMerge_def Let_def cong imf)
  have keys: "fst ` set ?dumped = fst ` set ?tmp" by force
  have d: "distinct (map fst ?tmp)"
    by (rule decouple_indices_files_loop_props(2)) simp
  have k: "fst ` set ?tmp =
          {idx \<in> set ?vis. all_parts_have_vector_index g idx = Some True
             \<and> (\<exists>part \<in> set (fp_parts (future_part g)). rows_count part \<noteq> 0)}"
    using decouple_indices_files_loop_props(1) [of g ?vis "[]"] by simp
  have imfs: "set ?imf =
              (\<lambda>(i, part). ''merged-'' @ toString i @ ''-'' @ part_name part @ ''-row_ids_map''
                               @ VECTOR_INDEX_FILE_SUFFIX (constants g))
                  ` {(i, part) \<in> set (enumerate 0 (fp_parts (future_part g))). rows_count part \<noteq> 0}
              \<union> {''merged-inverted_row_ids_map'' @ VECTOR_INDEX_FILE_SUFFIX (constants g),
                  ''merged-inverted_row_sources_map'' @ VECTOR_INDEX_FILE_SUFFIX (constants g)}"
    by (auto simp: index_map_filenames_def row_ids_map_filenames_eq)
  have each: "\<forall>(idx, files) \<in> set ?dumped.
            set files = moved_files (moveVectorIndexFiles g) idx (enumerate 0 (fp_parts (future_part g)))
              \<union> set ?imf"
  proof (clarify)
    fix idx files assume "(idx, files) \<in> set ?dumped"
    then obtain fs where m: "(idx, fs) \<in> set ?tmp" and fl: "files = fs @ ?imf" by auto
    from m have "idx \<in> fst ` set ?tmp" by force
    with k have iv: "idx \<in> set ?vis" and ih: "all_parts_have_vector_index g idx = Some True" by auto
    from files_of_distinct [OF d m] have "set fs = files_of ?tmp idx" by simp
    also have "\<dots> = moved_files (moveVectorIndexFiles g) idx (enumerate 0 (fp_parts (future_part g)))"
      using decouple_indices_files_loop_props(3) [of g ?vis "[]" idx] iv ih by (simp add: files_of_def)
    finally show "set files = moved_files (moveVectorIndexFiles g) idx (enumerate 0 (fp_parts (future_part g)))
              \<union> set ?imf"
      using fl by simp
  qed
  show ?thesis
    apply (rule exI [of _ ?dumped])
    using v keys k each unfolding imfs by (simp add: Un_assoc)
qed

lemma prepare_row_ids_map_files:
  assumes "prepare (g, c) = Inr (b, g', c')" and "can_be_decouple g'" and "row_ids_map_files g = []"
  shows "row_ids_map_files g' =
     map (\<lambda>(i, part). np_full_path (new_data_part g) @ ''merged-'' @ toString i @ ''-'' @ part_name part
                        @ ''-row_ids_map'' @ VECTOR_INDEX_FILE_SUFFIX (constants g))
       (enumerate 0 (fp_parts (future_part g)))"
proof -
  from prepare_InrD [OF assms(1)] obtain g5 g6 where
    d: "prepare_decouple g5 = Inr g6"
    and f5: "future_part g5 = future_part g" "row_ids_map_files g5 = row_ids_map_files g"
       "constants g5 = constants g" "np_full_path (new_data_part g5) = np_full_path (new_data_part g)"
    and f6: "can_be_decouple g' = can_be_decouple g6"
      "row_ids_map_files g' =
           (if can_be_decouple g6
            then row_ids_map_files g6
                 @ row_ids_map_file_names (np_full_path (new_data_part g6))
                     (VECTOR_INDEX_FILE_SUFFIX (constants g6)) (fp_parts (future_part g6)) 0
            else row_ids_map_files g6)"
    by blast
  from d have g6: "future_part g6 = future_part g5 \<and> row_ids_map_files g6 = row_ids_map_files g5
      \<and> constants g6 = constants g5 \<and> new_data_part g6 = new_data_part g5"
    by (auto simp: prepare_decouple_def Let_def split: if_splits prod.splits option.splits)
  from f6 assms(2) g6 f5 assms(3) show ?thesis
    by (simp add: row_ids_map_file_names_eq)
qed

text \<open>
  C6, as the claim states it: the checksums of an index list the moved index data files, one
  forward row ids map per non-empty source part, the inverted row ids map and the inverted
  row sources map, and no forward row ids map file is produced for an empty source part. The
  second half fails: \<open>prepare\<close> registers a file name for every source part and
  \<open>generateRowIdsMap\<close> opens and finalizes a file for every name; for the part \<open>E\<close>, which has
  no rows, the file is produced with no entry.
\<close>

theorem row_ids_map_of_empty_part_counterexample:
  "\<exists>g1 c1 g2 c2 g3 c3 g4 c4.
      prepare (g_with_empty_part, c0) = Inr (False, g1, c1)
    \<and> executeImpl (g1, c1) = Inr (True, g2, c2)
    \<and> executeImpl (g2, c2) = Inr (False, g3, c3)
    \<and> generateRowIdsMap (g3, c3) = Inr (False, g4, c4)
    \<and> can_be_decouple g4
    \<and> rows_count (fp_parts (future_part g4) ! 2) = 0
    \<and> row_ids_map_files g4 =
        [''/t/merged-0-A-row_ids_map.vidx'', ''/t/merged-1-B-row_ids_map.vidx'',
         ''/t/merged-2-E-row_ids_map.vidx'']
    \<and> row_ids_map_bufs g4 = [[0, 2], [1, 3], []]"
  by (simp add: prepare_defs concrete_defs Let_def toString.simps executeImpl_def ctx_is_cancelled_def
        pull_def generate_defs)

text \<open>
  C6, amended. In the decouple case the finalizer writes a checksums file for every vector
  index that all parts have and for which some source part has rows; it lists exactly the
  index data files moved from the non-empty source parts, the forward row ids maps of the
  non-empty source parts, the inverted row ids map and the inverted row sources map. A
  forward row ids map file is registered by \<open>prepare\<close> for every source part, empty or not,
  and \<open>generateRowIdsMap\<close> produces a file for every registered name; the file of an empty
  source part is not listed in the checksums.
\<close>

theorem decouple_checksums_and_row_ids_maps:
  "(\<forall>b g' p'. finalizeProjectionsAndWholeMerge (g, p) = Inr (b, g', p')
        \<and> can_be_decouple g \<and> rows_written g \<noteq> 0
      \<longrightarrow> (\<exists>dumped. vector_index_checksums g' = vector_index_checksums g @ dumped
            \<and> fst ` set dumped =
                {idx \<in> set (md_vector_indices (metadata_snapshot g)).
                   all_parts_have_vector_index g idx = Some True
                   \<and> (\<exists>part \<in> set (fp_parts (future_part g)). rows_count part \<noteq> 0)}
            \<and> (\<forall>(idx, files) \<in> set dumped.
                  set files =
                    moved_files (moveVectorIndexFiles g) idx (enumerate 0 (fp_parts (future_part g)))
                    \<union> (\<lambda>(i, part). ''merged-'' @ toString i @ ''-'' @ part_name part @ ''-row_ids_map''
                                     @ VECTOR_INDEX_FILE_SUFFIX (constants g))
                        ` {(i, part) \<in> set (enumerate 0 (fp_parts (future_part g))). rows_count part \<noteq> 0}
                    \<union> {''merged-inverted_row_ids_map'' @ VECTOR_INDEX_FILE_SUFFIX (constants g),
                        ''merged-inverted_row_sources_map'' @ VECTOR_INDEX_FILE_SUFFIX (constants g)})))
   \<and> (\<forall>b g' c'. prepare (g, c) = Inr (b, g', c') \<and> can_be_decouple g' \<and> row_ids_map_files g = []
      \<longrightarrow> row_ids_map_files g' =
            map (\<lambda>(i, part). np_full_path (new_data_part g) @ ''merged-'' @ toString i @ ''-''
                               @ part_name part @ ''-row_ids_map'' @ VECTOR_INDEX_FILE_SUFFIX (constants g))
              (enumerate 0 (fp_parts (future_part g))))
   \<and> (\<forall>b g' c'. generateRowIdsMap (g, c) = Inr (b, g', c') \<and> inverted_row_ids_map_file_path g \<noteq> []
      \<longrightarrow> length (row_ids_map_bufs g') = length (row_ids_map_files g))"
proof (intro conjI allI impI)
  fix b g' p'
  assume "finalizeProjectionsAndWholeMerge (g, p) = Inr (b, g', p')
        \<and> can_be_decouple g \<and> rows_written g \<noteq> 0"
  then show "\<exists>dumped. vector_index_checksums g' = vector_index_checksums g @ dumped
            \<and> fst ` set dumped =
                {idx \<in> set (md_vector_indices (metadata_snapshot g)).
                   all_parts_have_vector_index g idx = Some True
                   \<and> (\<exists>part \<in> set (fp_parts (future_part g)). rows_count part \<noteq> 0)}
            \<and> (\<forall>(idx, files) \<in> set dumped.
                  set files =
                    moved_files (moveVectorIndexFiles g) idx (enumerate 0 (fp_parts (future_part g)))
                    \<union> (\<lambda>(i, part). ''merged-'' @ toString i @ ''-'' @ part_name part @ ''-row_ids_map''
                                     @ VECTOR_INDEX_FILE_SUFFIX (constants g))
                        ` {(i, part) \<in> set (enumerate 0 (fp_parts (future_part g))). rows_count part \<noteq> 0}
                    \<union> {''merged-inverted_row_ids_map'' @ VECTOR_INDEX_FILE_SUFFIX (constants g),
                        ''merged-inverted_row_sources_map'' @ VECTOR_INDEX_FILE_SUFFIX (constants g)})"
    using finalize_decouple_checksums [of g p b g' p'] by simp
next
  fix b g' c'
  assume "prepare (g, c) = Inr (b, g', c') \<and> can_be_decouple g' \<and> row_ids_map_files g = []"
  then show "row_ids_map_files g' =
            map (\<lambda>(i, part). np_full_path (new_data_part g) @ ''merged-'' @ toString i @ ''-''
                               @ part_name part @ ''-row_ids_map'' @ VECTOR_INDEX_FILE_SUFFIX (constants g))
              (enumerate 0 (fp_parts (future_part g)))"
    using prepare_row_ids_map_files [of g c b g' c'] by simp
next
  fix b g' c'
  assume "generateRowIdsMap (g, c) = Inr (b, g', c') \<and> inverted_row_ids_map_file_path g \<noteq> []"
  then show "length (row_ids_map_bufs g') = length (row_ids_map_files g)"
    using generateRowIdsMap_bufs_length [of g c b g' c'] by simp
qed

theorem decouple_checksums_and_row_ids_maps_witness:
  "(\<exists>g' dumped. finalizeProjectionsAndWholeMerge (g_decoupled, p0) = Inr (False, g', p0)
       \<and> vector_index_checksums g' = dumped \<and> fst ` set dumped = {''vi''})
   \<and> (\<exists>g' c'. prepare (g_with_empty_part, c0) = Inr (False, g', c')
       \<and> row_ids_map_files g' =
           [''/t/merged-0-A-row_ids_map.vidx'', ''/t/merged-1-B-row_ids_map.vidx'',
            ''/t/merged-2-E-row_ids_map.vidx''])"
proof (intro conjI)
  have "\<exists>g'. finalizeProjectionsAndWholeMerge (g_decoupled, p0) = Inr (False, g', p0)"
    by (simp add: finalizeProjectionsAndWholeMerge_def concrete_defs Let_def)
  then obtain g' where f: "finalizeProjectionsAndWholeMerge (g_decoupled, p0) = Inr (False, g', p0)"
    by blast
  have h: "can_be_decouple g_decoupled \<and> rows_written g_decoupled \<noteq> 0"
    by (simp add: concrete_defs)
  from decouple_checksums_and_row_ids_maps [of g_decoupled p0, THEN conjunct1, rule_format, of False g' p0] f h
  obtain dumped where
    v: "vector_index_checksums g' = vector_index_checksums g_decoupled @ dumped"
    and k: "fst ` set dumped =
                {idx \<in> set (md_vector_indices (metadata_snapshot g_decoupled)).
                   all_parts_have_vector_index g_decoupled idx = Some True
                   \<and> (\<exists>part \<in> set (fp_parts (future_part g_decoupled)). rows_count part \<noteq> 0)}"
    by blast
  have v': "vector_index_checksums g' = dumped"
    using v by (simp add: concrete_defs)
  have k': "fst ` set dumped = {''vi''}"
    unfolding k by (auto simp: concrete_defs)
  from f v' k' show "\<exists>g' dumped. finalizeProjectionsAndWholeMerge (g_decoupled, p0) = Inr (False, g', p0)
       \<and> vector_index_checksums g' = dumped \<and> fst ` set dumped = {''vi''}"
    by (intro exI [of _ g'] exI [of _ dumped] conjI)
next
  have "\<exists>g' c'. prepare (g_with_empty_part, c0) = Inr (False, g', c') \<and> can_be_decouple g'"
    by (simp add: prepare_defs concrete_defs Let_def toString.simps)
  then obtain g' c' where p: "prepare (g_with_empty_part, c0) = Inr (False, g', c')"
    and c: "can_be_decouple g'" by blast
  have e: "row_ids_map_files g_with_empty_part = []" by (simp add: concrete_defs)
  from decouple_checksums_and_row_ids_maps
         [of g_with_empty_part _ c0, THEN conjunct2, THEN conjunct1, rule_format, of False g' c'] p c e
  have "row_ids_map_files g' =
            map (\<lambda>(i, part). np_full_path (new_data_part g_with_empty_part) @ ''merged-'' @ toString i @ ''-''
                               @ part_name part @ ''-row_ids_map''
                               @ VECTOR_INDEX_FILE_SUFFIX (constants g_with_empty_part))
              (enumerate 0 (fp_parts (future_part g_with_empty_part)))"
    by blast
  then have "row_ids_map_files g' =
           [''/t/merged-0-A-row_ids_map.vidx'', ''/t/merged-1-B-row_ids_map.vidx'',
            ''/t/merged-2-E-row_ids_map.vidx'']"
    by (simp add: concrete_defs toString.simps)
  with p show "\<exists>g' c'. prepare (g_with_empty_part, c0) = Inr (False, g', c')
       \<and> row_ids_map_files g' =
           [''/t/merged-0-A-row_ids_map.vidx'', ''/t/merged-1-B-row_ids_map.vidx'',
            ''/t/merged-2-E-row_ids_map.vidx'']"
    by (intro exI [of _ g'] exI [of _ c'] conjI)
qed

section \<open>The forward row ids maps\<close>






















lemma generateRowIdsMap_rows_written:
  "generateRowIdsMap (g, c) = Inr (b, g', c') \<Longrightarrow> rows_written g' = rows_written g"
  by (auto simp: generateRowIdsMap_def Let_def split: if_splits sum.splits prod.splits)


text \<open>
  The merged rows are counted from the rows sources stream, which the merging transform
  writes; \<open>createMergedStream\<close> puts the transform for \<open>deduplicate\<close> after it. In the
  merge of \<open>g0\<close> with \<open>deduplicate\<close>, in which two of the four merged rows are removed, the
  stream has four emitted records and the forward maps hold the merged rows 0 to 3, while
  two rows are written.
\<close>

lemma deduplicate_merged_rows_not_written:
  "\<exists>g1 c1 g2 c2 g3 c3 g4 c4.
      prepare (g_deduplicate, c0) = Inr (False, g1, c1)
    \<and> executeImpl (g1, c1) = Inr (True, g2, c2)
    \<and> executeImpl (g2, c2) = Inr (False, g3, c3)
    \<and> generateRowIdsMap (g3, c3) = Inr (False, g4, c4)
    \<and> deduplicate g4
    \<and> rows_written g4 = 2
    \<and> row_ids_map_bufs g4 = [[0, 2], [1, 3]]
    \<and> length (emitted_rows False (rows_sources_file_content g3)) = 4"
  by (simp add: prepare_defs concrete_defs Let_def toString.simps executeImpl_def
        ctx_is_cancelled_def pull_def generate_defs emitted_rows_def row_emitted_def)




end
